theory Spec2Isabelle
  imports Main
begin

section \<open>Errors, native calls and the world they act on\<close>

text \<open>
  The error kinds of \<^verbatim>\<open>Error_t\<close> that \<^verbatim>\<open>gpu_resource.hpp\<close> can raise: \<^verbatim>\<open>WrongInput\<close> by
  its own \<^verbatim>\<open>CK_THROW_\<close> lines, the others through the checking macros around native calls.
\<close>

datatype Error_t = WrongInput | CudaError | CublasError | CurandError | CudnnError
  | NcclError | MpiError

text \<open>
  What the code can throw: the runtime error of the \<^verbatim>\<open>CK_..._THROW_\<close> macros (a
  \<^verbatim>\<open>std::runtime_error\<close> carrying its kind and message), and \<^verbatim>\<open>std::bad_alloc\<close> of a
  \<^verbatim>\<open>new\<close> expression.
\<close>

datatype exn = runtime_error Error_t string | bad_alloc

text \<open>A pointer into the communicator array: null, or the address of an element.\<close>

datatype ptr = nullptr | Addr nat

fun ptr_add :: "ptr \<Rightarrow> nat \<Rightarrow> ptr" where
  "ptr_add nullptr i = nullptr"
| "ptr_add (Addr a) i = Addr (a + i)"

text \<open>
  A communicator handle: null (the value \<^verbatim>\<open>new ncclComm_t[n]()\<close> puts in every slot), or
  the handle made by the native call with the given ordinal for the given position of its
  output array.
\<close>

datatype ncclComm_t = null_comm | Comm nat nat

type_synonym handle = nat

text \<open>The native calls of the file, with the arguments the code passes.\<close>

datatype call =
    ThreadPoolCreate nat
  | SetAffinity nat
  | CudaGetDeviceCount
  | NewCommArray nat
  | MPI_Comm_rank
  | MPI_Comm_size
  | NcclGetUniqueId
  | MPI_Bcast nat
  | NcclGroupStart
  | CudaSetDevice int
  | NcclCommInitRank ptr int "nat option" int
  | NcclGroupEnd
  | NcclCommInitAll ptr nat "int list"
  | NewGPUResource
  | CudaDeviceContext int
  | CublasCreate
  | CurandCreateGenerator
  | CudnnCreate
  | CudaStreamCreate
  | CublasDestroy handle
  | CurandDestroyGenerator handle
  | CudnnDestroy handle
  | CudaStreamDestroy handle
  | NcclCommDestroy ncclComm_t

text \<open>
  The world a run acts on: the native calls made so far, in order, and the lines written
  to \<^verbatim>\<open>std::cerr\<close>.
\<close>

record world =
  trace :: "call list"
  cerr :: "string list"

text \<open>
  What the host and the libraries answer. The call with ordinal \<open>k\<close> (the \<open>k\<close>-th call of
  the trace, from 0) returns a failure status iff \<open>fails k\<close>, and the error then thrown
  carries the text \<open>what k\<close>. \<open>dev_count\<close> is what \<^verbatim>\<open>cudaGetDeviceCount\<close> stores,
  \<open>comms_base\<close> the address \<^verbatim>\<open>new ncclComm_t[n]()\<close> returns, \<open>my_rank\<close> and \<open>n_ranks\<close>
  the answers of MPI, \<open>unique_id\<close> the token \<^verbatim>\<open>ncclGetUniqueId\<close> makes in this process and
  \<open>root_id\<close> the token the process of rank 0 broadcasts.
\<close>

record env =
  dev_count :: int
  fails :: "nat \<Rightarrow> bool"
  what :: "nat \<Rightarrow> string"
  comms_base :: nat
  my_rank :: int
  n_ranks :: int
  unique_id :: nat
  root_id :: nat

type_synonym 'a prog = "world \<Rightarrow> (exn + 'a) \<times> world"

definition return_p :: "'a \<Rightarrow> 'a prog" where
  "return_p x w = (Inr x, w)"

definition throw_p :: "exn \<Rightarrow> 'a prog" where
  "throw_p e w = (Inl e, w)"

definition bind_p :: "'a prog \<Rightarrow> ('a \<Rightarrow> 'b prog) \<Rightarrow> 'b prog" where
  "bind_p m f w = (case m w of (Inl e, w') \<Rightarrow> (Inl e, w') | (Inr a, w') \<Rightarrow> f a w')"

text \<open>A call whose status the code does not look at: it is recorded and returns its ordinal.\<close>

definition emit :: "call \<Rightarrow> nat prog" where
  "emit c w = (Inr (length (trace w)), w\<lparr>trace := trace w @ [c]\<rparr>)"

text \<open>
  Modelled from the spec: the macros \<^verbatim>\<open>CK_CUDA_THROW_\<close>, \<^verbatim>\<open>CK_CUBLAS_THROW_\<close>,
  \<^verbatim>\<open>CK_CURAND_THROW_\<close>, \<^verbatim>\<open>CK_CUDNN_THROW_\<close>, \<^verbatim>\<open>CK_NCCL_THROW_\<close> and \<^verbatim>\<open>CK_MPI_THROW_\<close> of
  \<^verbatim>\<open>common.hpp\<close> are not in the source tree. The spec: every fallible step signals failure
  via a typed error. The call is made; a failure status throws the runtime error of the
  macro's kind; success returns the ordinal of the call, which names what it created.
\<close>

definition CK_THROW :: "env \<Rightarrow> Error_t \<Rightarrow> call \<Rightarrow> nat prog" where
  "CK_THROW e ty c w =
     (let k = length (trace w); w' = w\<lparr>trace := trace w @ [c]\<rparr>
      in if fails e k then (Inl (runtime_error ty (what e k)), w') else (Inr k, w'))"

text \<open>A \<^verbatim>\<open>new\<close> expression: throws \<^verbatim>\<open>std::bad_alloc\<close> when the allocation fails.\<close>

definition operator_new :: "env \<Rightarrow> call \<Rightarrow> nat prog" where
  "operator_new e c w =
     (let k = length (trace w); w' = w\<lparr>trace := trace w @ [c]\<rparr>
      in if fails e k then (Inl bad_alloc, w') else (Inr k, w'))"

text \<open>
  \<^verbatim>\<open>try { body } catch (const std::runtime_error& rt_err) { std::cerr << rt_err.what() << std::endl; }\<close>:
  a runtime error is written to \<^verbatim>\<open>std::cerr\<close> and dropped, anything else goes on.
\<close>

definition try_catch :: "unit prog \<Rightarrow> unit prog" where
  "try_catch body w =
     (case body w of
        (Inl (runtime_error ty msg), w') \<Rightarrow> (Inr (), w'\<lparr>cerr := cerr w' @ [msg]\<rparr>)
      | (Inl bad_alloc, w') \<Rightarrow> (Inl bad_alloc, w')
      | (Inr u, w') \<Rightarrow> (Inr (), w'))"

text \<open>\<^verbatim>\<open>for (i = i0; i < n; i++) body\<close>, the body acting on local state \<open>s\<close>.\<close>

function for_loop :: "nat \<Rightarrow> nat \<Rightarrow> (nat \<Rightarrow> 's \<Rightarrow> 's prog) \<Rightarrow> 's \<Rightarrow> 's prog" where
  "for_loop i n body s w =
     (if i < n
      then (case body i s w of
              (Inl e, w') \<Rightarrow> (Inl e, w')
            | (Inr s', w') \<Rightarrow> for_loop (Suc i) n body s' w')
      else (Inr s, w))"
  by pat_completeness auto
termination
  by (relation "measure (\<lambda>(i, n, body, s, w). n - i)") auto

declare for_loop.simps [simp del]

section \<open>GPUResource\<close>

text \<open>
  A member \<^verbatim>\<open>x_\<close> of the source is the field \<open>x_m\<close> here: a name of the logic cannot end in an
  underscore.
\<close>

record GPUResource =
  stream_m :: handle
  data_copy_stream_m :: "handle list"
  cublas_handle_m :: handle
  curand_generator_m :: handle
  cudnn_handle_m :: handle
  device_id_m :: int
  comm_m :: ptr

text \<open>
  Modelled from the spec: the guard class \<^verbatim>\<open>CudaDeviceContext\<close> of \<^verbatim>\<open>utils.hpp\<close> is not in the
  source tree. The spec: a scoped mechanism ensuring subsequent operations target a
  specific accelerator, reverted on scope exit. Taking the guard is one checked call, inside
  the \<^verbatim>\<open>try\<close> block where the source has it; its release at the end of the scope is not
  recorded and does not throw.

  The constructor of a resource: the guard, then the six creations in the order of the
  source, each checked. What a constructor that throws leaves behind is not modelled.
\<close>

definition GPUResource_ctor :: "env \<Rightarrow> int \<Rightarrow> ptr \<Rightarrow> GPUResource prog" where
  "GPUResource_ctor e device_id comm =
     bind_p (CK_THROW e CudaError (CudaDeviceContext device_id)) (\<lambda>_.
     bind_p (CK_THROW e CublasError CublasCreate) (\<lambda>cublas.
     bind_p (CK_THROW e CurandError CurandCreateGenerator) (\<lambda>curand.
     bind_p (CK_THROW e CudnnError CudnnCreate) (\<lambda>cudnn.
     bind_p (CK_THROW e CudaError CudaStreamCreate) (\<lambda>s.
     bind_p (CK_THROW e CudaError CudaStreamCreate) (\<lambda>d0.
     bind_p (CK_THROW e CudaError CudaStreamCreate) (\<lambda>d1.
     return_p \<lparr>stream_m = s, data_copy_stream_m = [d0, d1], cublas_handle_m = cublas,
       curand_generator_m = curand, cudnn_handle_m = cudnn, device_id_m = device_id,
       comm_m = comm\<rparr>)))))))"

definition GPUResource_dtor_body :: "env \<Rightarrow> GPUResource \<Rightarrow> unit prog" where
  "GPUResource_dtor_body e r =
     bind_p (CK_THROW e CudaError (CudaDeviceContext (device_id_m r))) (\<lambda>_.
     bind_p (CK_THROW e CublasError (CublasDestroy (cublas_handle_m r))) (\<lambda>_.
     bind_p (CK_THROW e CurandError (CurandDestroyGenerator (curand_generator_m r))) (\<lambda>_.
     bind_p (CK_THROW e CudnnError (CudnnDestroy (cudnn_handle_m r))) (\<lambda>_.
     bind_p (CK_THROW e CudaError (CudaStreamDestroy (stream_m r))) (\<lambda>_.
     bind_p (CK_THROW e CudaError (CudaStreamDestroy (data_copy_stream_m r ! 0))) (\<lambda>_.
     bind_p (CK_THROW e CudaError (CudaStreamDestroy (data_copy_stream_m r ! 1))) (\<lambda>_.
     return_p ())))))))"

definition GPUResource_dtor :: "env \<Rightarrow> GPUResource \<Rightarrow> unit prog" where
  "GPUResource_dtor e r = try_catch (GPUResource_dtor_body e r)"

definition get_device_id :: "GPUResource \<Rightarrow> int" where
  "get_device_id r = device_id_m r"

definition get_stream :: "GPUResource \<Rightarrow> handle" where
  "get_stream r = stream_m r"

text \<open>\<^verbatim>\<open>get_data_copy_stream(int id)\<close> returns \<^verbatim>\<open>data_copy_stream_[0]\<close>.\<close>

definition get_data_copy_stream :: "GPUResource \<Rightarrow> int \<Rightarrow> handle" where
  "get_data_copy_stream r ident = data_copy_stream_m r ! 0"

definition get_nccl_ptr :: "GPUResource \<Rightarrow> ptr" where
  "get_nccl_ptr r = comm_m r"

section \<open>GPUResourceGroup\<close>

text \<open>
  The device map (\<^verbatim>\<open>device_map.hpp\<close>, not in the source tree) is read only through its
  accessors; each field is what the accessor of that name returns (\<open>DeviceMap_size\<close> for
  \<^verbatim>\<open>size()\<close>).
\<close>

record DeviceMap =
  get_device_list :: "int list"
  get_global_id :: "int \<Rightarrow> int"
  get_local_id :: "int \<Rightarrow> int"
  get_local_device_id :: "int \<Rightarrow> int"
  DeviceMap_size :: int
  num_nodes :: int
  get_pid :: "int \<Rightarrow> int"

text \<open>
  The group: \<open>comms_m\<close> is the pointer \<^verbatim>\<open>comms_.get()\<close>, \<open>comms_array\<close> the content of the
  array it owns, \<open>train_thread_pool\<close> and \<open>results\<close> the sizes the two members were made
  with.
\<close>

record GPUResourceGroup =
  comms_m :: ptr
  comms_array :: "ncclComm_t list"
  device_map_m :: DeviceMap
  gpu_resources_m :: "GPUResource list"
  train_thread_pool :: nat
  results :: nat

text \<open>
  How the file is built: with or without \<^verbatim>\<open>ENABLE_MPI\<close>. The branch under \<^verbatim>\<open>ENABLE_MPI\<close>
  passes the identifier \<^verbatim>\<open>total_gpu_count\<close> to \<^verbatim>\<open>ncclCommInitRank\<close>; its only declaration in
  the file, \<^verbatim>\<open>int total_gpu_count = get_total_gpu_count();\<close>, is commented out, so the
  source gives it no value: whatever it is bound to is a parameter of the build here.
\<close>

record build =
  ENABLE_MPI :: bool
  total_gpu_count :: int

definition size_group :: "GPUResourceGroup \<Rightarrow> nat" where
  "size_group g = length (get_device_list (device_map_m g))"

definition empty_group :: "GPUResourceGroup \<Rightarrow> bool" where
  "empty_group g = (size_group g = 0)"

text \<open>
  \<^verbatim>\<open>operator[](int idx)\<close> returns \<^verbatim>\<open>gpu_resources_[idx]\<close> with no check: outside the
  vector the access has no defined result, which is \<open>None\<close> here.
\<close>

definition operator_index :: "GPUResourceGroup \<Rightarrow> int \<Rightarrow> GPUResource option" where
  "operator_index g idx =
     (if 0 \<le> idx \<and> nat idx < length (gpu_resources_m g)
      then Some (gpu_resources_m g ! nat idx) else None)"

definition get_total_gpu_count :: "GPUResourceGroup \<Rightarrow> int" where
  "get_total_gpu_count g = DeviceMap_size (device_map_m g)"

definition get_node_count :: "GPUResourceGroup \<Rightarrow> int" where
  "get_node_count g = num_nodes (device_map_m g)"

text \<open>\<^verbatim>\<open>std::to_string\<close> of an \<^verbatim>\<open>int\<close>: decimal digits, with a minus sign below zero.\<close>

fun digits :: "nat \<Rightarrow> string" where
  "digits n = (if n < 10 then [''0123456789'' ! n]
               else digits (n div 10) @ [''0123456789'' ! (n mod 10)])"

declare digits.simps [simp del]

definition to_string :: "int \<Rightarrow> string" where
  "to_string i = (if i < 0 then CHR ''-'' # digits (nat (- i)) else digits (nat i))"

text \<open>
  \<^verbatim>\<open>for (int dev : device_list) if (dev >= dev_count) CK_THROW_(Error_t::WrongInput, ...)\<close>
\<close>

fun check_devices :: "int \<Rightarrow> int list \<Rightarrow> unit prog" where
  "check_devices dc [] = return_p ()"
| "check_devices dc (dev # rest) =
     (if dev \<ge> dc
      then throw_p (runtime_error WrongInput (''Invalid device id: '' @ to_string dev))
      else check_devices dc rest)"

text \<open>
  The branch without \<^verbatim>\<open>ENABLE_MPI\<close>: one \<^verbatim>\<open>ncclCommInitAll\<close> over the whole array, which
  on success has made a communicator in every slot.
\<close>

definition bootstrap_local :: "env \<Rightarrow> ptr \<Rightarrow> int list \<Rightarrow> ncclComm_t list prog" where
  "bootstrap_local e comms device_list =
     bind_p (CK_THROW e NcclError (NcclCommInitAll comms (length device_list) device_list))
       (\<lambda>k. return_p (map (Comm k) [0 ..< length device_list]))"

text \<open>
  The branch under \<^verbatim>\<open>ENABLE_MPI\<close>. \<open>nid\<close> is \<open>None\<close> while nothing has been stored in it;
  \<^verbatim>\<open>MPI_Bcast\<close> with root 0 leaves the buffer of rank 0 as it is and stores the token of
  rank 0 everywhere else.
\<close>

definition join_body ::
  "env \<Rightarrow> ptr \<Rightarrow> int \<Rightarrow> nat option \<Rightarrow> DeviceMap \<Rightarrow> int list \<Rightarrow> nat \<Rightarrow> ncclComm_t list
     \<Rightarrow> ncclComm_t list prog" where
  "join_body e comms tgc nid device_map device_list i arr =
     bind_p (CK_THROW e CudaError (CudaSetDevice (device_list ! i))) (\<lambda>_.
     bind_p (CK_THROW e NcclError
        (NcclCommInitRank (ptr_add comms i) tgc nid
           (get_global_id device_map (device_list ! i)))) (\<lambda>k.
     return_p (arr[i := Comm k 0])))"

definition bootstrap_mpi ::
  "env \<Rightarrow> int \<Rightarrow> ptr \<Rightarrow> DeviceMap \<Rightarrow> int list \<Rightarrow> ncclComm_t list \<Rightarrow> ncclComm_t list prog" where
  "bootstrap_mpi e tgc comms device_map device_list arr =
     bind_p (CK_THROW e MpiError MPI_Comm_rank) (\<lambda>_.
     bind_p (CK_THROW e MpiError MPI_Comm_size) (\<lambda>_.
     bind_p (if my_rank e = 0
             then bind_p (CK_THROW e NcclError NcclGetUniqueId) (\<lambda>_. return_p (Some (unique_id e)))
             else return_p None) (\<lambda>nid0.
     bind_p (CK_THROW e MpiError (MPI_Bcast 0)) (\<lambda>_.
     bind_p (return_p (if my_rank e = 0 then nid0 else Some (root_id e))) (\<lambda>nid.
     bind_p (CK_THROW e NcclError NcclGroupStart) (\<lambda>_.
     bind_p (for_loop 0 (length device_list) (join_body e comms tgc nid device_map device_list) arr)
       (\<lambda>arr'.
     bind_p (CK_THROW e NcclError NcclGroupEnd) (\<lambda>_.
     return_p arr'))))))))"

text \<open>
  \<^verbatim>\<open>gpu_resources_.emplace_back(new GPUResource(device_list[i], comms_.get() + i))\<close>
\<close>

definition resource_body ::
  "env \<Rightarrow> ptr \<Rightarrow> int list \<Rightarrow> nat \<Rightarrow> GPUResource list \<Rightarrow> GPUResource list prog" where
  "resource_body e comms device_list i rs =
     bind_p (operator_new e NewGPUResource) (\<lambda>_.
     bind_p (GPUResource_ctor e (device_list ! i) (ptr_add comms i)) (\<lambda>r.
     return_p (rs @ [r])))"

text \<open>
  The constructor of the group, in the order of the source. First the members \<^verbatim>\<open>comms_\<close>,
  \<^verbatim>\<open>device_map_\<close>, \<^verbatim>\<open>train_thread_pool\<close> and \<^verbatim>\<open>results\<close>, the affinity loop and the four
  checks (\<open>GPUResourceGroup_ctor\<close>, to line 138); then the communicator array, the
  bootstrap of the build and one resource for each local accelerator (\<open>ctor_acquire\<close>,
  from line 142).

  Modelled from the spec: \<^verbatim>\<open>ctpl::thread_pool\<close> and \<^verbatim>\<open>set_affinity\<close> are not in the source
  tree. The spec: a worker pool sized to the local accelerator count, with one slot per
  accelerator affinitized; this core only requires that it exist and be sized correctly.
  Both are recorded as calls that do not throw, as is \<^verbatim>\<open>cudaGetDeviceCount\<close>, whose status
  the source drops: the count compared with is whatever the call has stored.
\<close>

definition ctor_acquire ::
  "build \<Rightarrow> env \<Rightarrow> DeviceMap \<Rightarrow> GPUResourceGroup \<Rightarrow> GPUResourceGroup prog" where
  "ctor_acquire b e device_map this =
     (let device_list = get_device_list device_map;
          local_gpu_count = length device_list
      in
     bind_p (operator_new e (NewCommArray local_gpu_count)) (\<lambda>_.
     (let comms = Addr (comms_base e);
          arr = replicate local_gpu_count null_comm
      in
     bind_p (if ENABLE_MPI b
             then bootstrap_mpi e (total_gpu_count b) comms device_map device_list arr
             else bootstrap_local e comms device_list) (\<lambda>arr'.
     bind_p (for_loop 0 local_gpu_count (resource_body e comms device_list) []) (\<lambda>rs.
     return_p (this\<lparr>comms_m := comms, comms_array := arr', gpu_resources_m := rs\<rparr>))))))"

definition GPUResourceGroup_ctor :: "build \<Rightarrow> env \<Rightarrow> DeviceMap \<Rightarrow> GPUResourceGroup prog" where
  "GPUResourceGroup_ctor b e device_map =
     (let this = \<lparr>comms_m = nullptr, comms_array = [], device_map_m = device_map,
                  gpu_resources_m = [],
                  train_thread_pool = length (get_device_list device_map),
                  results = length (get_device_list device_map)\<rparr>
      in
     bind_p (emit (ThreadPoolCreate (length (get_device_list device_map)))) (\<lambda>_.
     bind_p (for_loop 0 (length (get_device_list device_map))
               (\<lambda>i u. bind_p (emit (SetAffinity i)) (\<lambda>_. return_p u)) ()) (\<lambda>_.
     (let device_list = get_device_list device_map;
          local_gpu_count = length device_list
      in
     if local_gpu_count = 0
     then throw_p (runtime_error WrongInput ''Empty device_list'')
     else if local_gpu_count \<noteq> size_group this
     then throw_p (runtime_error WrongInput ''local_gpu_count != size()'')
     else
     bind_p (emit CudaGetDeviceCount) (\<lambda>_.
     bind_p (check_devices (dev_count e) device_list) (\<lambda>_.
     if length (get_device_list device_map) \<noteq> local_gpu_count
     then throw_p (runtime_error WrongInput
            ''device_map->get_device_list().size() != local_gpu_count'')
     else ctor_acquire b e device_map this))))))"

text \<open>
  The destructor of the group. Its body, under \<^verbatim>\<open>try\<close>: when the vector holds more than
  one resource, \<^verbatim>\<open>ncclCommDestroy(comms_[i])\<close> for each index of the vector, each checked.
\<close>

definition GPUResourceGroup_dtor_body :: "env \<Rightarrow> GPUResourceGroup \<Rightarrow> unit prog" where
  "GPUResourceGroup_dtor_body e g =
     (if length (gpu_resources_m g) > 1
      then for_loop 0 (length (gpu_resources_m g))
             (\<lambda>i u. bind_p (CK_THROW e NcclError (NcclCommDestroy (comms_array g ! i)))
                      (\<lambda>_. return_p u)) ()
      else return_p ())"

text \<open>
  After the body the members go, \<^verbatim>\<open>gpu_resources_\<close> among them: the group being the last
  holder of each resource (the spec: exclusively owned by the group), every
  \<^verbatim>\<open>GPUResource\<close> is destroyed, in the order of the vector. The thread pool, the device
  map and the memory of the communicator array, which go too, make no call of this model.
\<close>

fun destroy_resources :: "env \<Rightarrow> GPUResource list \<Rightarrow> unit prog" where
  "destroy_resources e [] = return_p ()"
| "destroy_resources e (r # rs) = bind_p (GPUResource_dtor e r) (\<lambda>_. destroy_resources e rs)"

definition GPUResourceGroup_dtor :: "env \<Rightarrow> GPUResourceGroup \<Rightarrow> unit prog" where
  "GPUResourceGroup_dtor e g =
     bind_p (try_catch (GPUResourceGroup_dtor_body e g)) (\<lambda>_.
     destroy_resources e (gpu_resources_m g))"

section \<open>Statements about runs\<close>

text \<open>
  \<open>triple P m Q E\<close>: from a world where \<open>P\<close> holds, \<open>m\<close> either returns a value and a
  world that satisfy \<open>Q\<close> or throws an exception that, with the world it leaves, satisfies
  \<open>E\<close>.
\<close>

definition triple ::
  "(world \<Rightarrow> bool) \<Rightarrow> 'a prog \<Rightarrow> ('a \<Rightarrow> world \<Rightarrow> bool) \<Rightarrow> (exn \<Rightarrow> world \<Rightarrow> bool) \<Rightarrow> bool" where
  "triple P m Q E =
     (\<forall>w. P w \<longrightarrow> (case m w of (Inr a, w') \<Rightarrow> Q a w' | (Inl x, w') \<Rightarrow> E x w'))"

text \<open>\<open>throws_only P m\<close>: every exception that \<open>m\<close> throws satisfies \<open>P\<close>.\<close>

definition throws_only :: "(exn \<Rightarrow> bool) \<Rightarrow> 'a prog \<Rightarrow> bool" where
  "throws_only P m = triple (\<lambda>_. True) m (\<lambda>_ _. True) (\<lambda>x _. P x)"

text \<open>\<open>not_wrong_input x\<close>: the exception \<open>x\<close> is not a runtime error of kind \<^verbatim>\<open>WrongInput\<close>.\<close>

definition not_wrong_input :: "exn \<Rightarrow> bool" where
  "not_wrong_input x = (case x of runtime_error ty msg \<Rightarrow> ty \<noteq> WrongInput | bad_alloc \<Rightarrow> True)"

subsection \<open>Calls and traces\<close>

text \<open>The calls a run has added to the trace of the world it started from.\<close>

definition new_calls :: "world \<Rightarrow> world \<Rightarrow> call list" where
  "new_calls w w' = drop (length (trace w)) (trace w')"

text \<open>
  The calls that create a native device resource: a communicator, a library handle or a
  stream.
\<close>

fun creates_native_resource :: "call \<Rightarrow> bool" where
  "creates_native_resource (NcclCommInitRank p n nid r) = True"
| "creates_native_resource (NcclCommInitAll p n devs) = True"
| "creates_native_resource CublasCreate = True"
| "creates_native_resource CurandCreateGenerator = True"
| "creates_native_resource CudnnCreate = True"
| "creates_native_resource CudaStreamCreate = True"
| "creates_native_resource c = False"

text \<open>The teardown calls of communicators.\<close>

fun is_comm_destroy :: "call \<Rightarrow> bool" where
  "is_comm_destroy (NcclCommDestroy c) = True"
| "is_comm_destroy c = False"

text \<open>
  The calls of the join loop of the branch under \<^verbatim>\<open>ENABLE_MPI\<close> for the local indices
  below \<open>j\<close>: for each index, in order, \<^verbatim>\<open>cudaSetDevice\<close> and \<^verbatim>\<open>ncclCommInitRank\<close>.
\<close>

definition join_calls ::
  "ptr \<Rightarrow> int \<Rightarrow> nat option \<Rightarrow> DeviceMap \<Rightarrow> int list \<Rightarrow> nat \<Rightarrow> call list" where
  "join_calls comms tgc nid device_map device_list j =
     concat (map (\<lambda>i. [CudaSetDevice (device_list ! i),
                        NcclCommInitRank (ptr_add comms i) tgc nid
                          (get_global_id device_map (device_list ! i))]) [0 ..< j])"

text \<open>The calls of a whole bootstrap under \<^verbatim>\<open>ENABLE_MPI\<close> in which no call fails.\<close>

definition mpi_calls :: "env \<Rightarrow> int \<Rightarrow> ptr \<Rightarrow> DeviceMap \<Rightarrow> int list \<Rightarrow> call list" where
  "mpi_calls e tgc comms device_map device_list =
     [MPI_Comm_rank, MPI_Comm_size] @ (if my_rank e = 0 then [NcclGetUniqueId] else [])
     @ [MPI_Bcast 0, NcclGroupStart]
     @ join_calls comms tgc (Some (if my_rank e = 0 then unique_id e else root_id e))
         device_map device_list (length device_list)
     @ [NcclGroupEnd]"

text \<open>The calls of a bootstrap of the build \<open>b\<close> in which no call fails.\<close>

definition bootstrap_calls :: "build \<Rightarrow> env \<Rightarrow> DeviceMap \<Rightarrow> call list" where
  "bootstrap_calls b e device_map =
     (if ENABLE_MPI b
      then mpi_calls e (total_gpu_count b) (Addr (comms_base e)) device_map
             (get_device_list device_map)
      else [NcclCommInitAll (Addr (comms_base e)) (length (get_device_list device_map))
              (get_device_list device_map)])"

text \<open>
  \<open>initialises c q\<close>: the call \<open>c\<close> makes a communicator in the slot at address \<open>q\<close>.
  \<^verbatim>\<open>ncclCommInitAll(p, n, devs)\<close> fills the \<open>n\<close> slots from \<open>p\<close>, \<^verbatim>\<open>ncclCommInitRank(p, ...)\<close>
  the slot \<open>p\<close>.
\<close>

fun initialises :: "call \<Rightarrow> ptr \<Rightarrow> bool" where
  "initialises (NcclCommInitAll p n devs) q = (q \<in> set (map (ptr_add p) [0 ..< n]))"
| "initialises (NcclCommInitRank p n nid r) q = (q = p)"
| "initialises c q = False"

text \<open>
  \<open>populated_before comms n tr\<close>: in the calls \<open>tr\<close>, each of the \<open>n\<close> slots from \<open>comms\<close> is
  initialised by a call made before the first \<^verbatim>\<open>new GPUResource\<close>.
\<close>

definition populated_before :: "ptr \<Rightarrow> nat \<Rightarrow> call list \<Rightarrow> bool" where
  "populated_before comms n tr =
     list_all (\<lambda>i. list_ex (\<lambda>c. initialises c (ptr_add comms i))
                     (takeWhile (\<lambda>c. c \<noteq> NewGPUResource) tr)) [0 ..< n]"

text \<open>The teardown calls of the slots below \<open>j\<close>, in index order.\<close>

definition destroy_calls :: "ncclComm_t list \<Rightarrow> nat \<Rightarrow> call list" where
  "destroy_calls arr j = map (\<lambda>i. NcclCommDestroy (arr ! i)) [0 ..< j]"

subsection \<open>What holds inside the loops\<close>

text \<open>What holds when the join loop reaches index \<open>j\<close>, started from the trace \<open>t0\<close>.\<close>

definition join_inv ::
  "ptr \<Rightarrow> int \<Rightarrow> nat option \<Rightarrow> DeviceMap \<Rightarrow> int list \<Rightarrow> call list \<Rightarrow> nat
     \<Rightarrow> ncclComm_t list \<Rightarrow> world \<Rightarrow> bool" where
  "join_inv comms tgc nid device_map device_list t0 j arr w =
     (length arr = length device_list \<and> (\<forall>k<j. arr ! k \<noteq> null_comm)
      \<and> trace w = t0 @ join_calls comms tgc nid device_map device_list j)"

text \<open>What holds when the resource loop reaches index \<open>j\<close>, started from the trace \<open>t0\<close>.\<close>

definition resources_inv ::
  "ptr \<Rightarrow> int list \<Rightarrow> call list \<Rightarrow> nat \<Rightarrow> GPUResource list \<Rightarrow> world \<Rightarrow> bool" where
  "resources_inv comms device_list t0 j rs w =
     (length rs = j
      \<and> (\<forall>k<j. device_id_m (rs ! k) = device_list ! k \<and> comm_m (rs ! k) = ptr_add comms k)
      \<and> (\<exists>tr. trace w = t0 @ tr))"

text \<open>
  The teardown loop started at the trace \<open>t0\<close>: at index \<open>j\<close> the slots below \<open>j\<close> have
  been torn down and no call has failed; when it throws, at slot \<open>m\<close>, the slots up to
  \<open>m\<close> have been passed to \<^verbatim>\<open>ncclCommDestroy\<close> and the call for \<open>m\<close> has failed.
\<close>

definition destroy_inv :: "env \<Rightarrow> ncclComm_t list \<Rightarrow> call list \<Rightarrow> nat \<Rightarrow> unit \<Rightarrow> world \<Rightarrow> bool" where
  "destroy_inv e arr t0 j u w =
     (trace w = t0 @ destroy_calls arr j \<and> (\<forall>i<j. \<not> fails e (length t0 + i)))"

definition destroy_stopped ::
  "env \<Rightarrow> ncclComm_t list \<Rightarrow> call list \<Rightarrow> nat \<Rightarrow> exn \<Rightarrow> world \<Rightarrow> bool" where
  "destroy_stopped e arr t0 n x w =
     (\<exists>m<n. trace w = t0 @ destroy_calls arr (Suc m) \<and> (\<forall>i<m. \<not> fails e (length t0 + i))
           \<and> fails e (length t0 + m))"

text \<open>
  \<open>no_comm_destroy ws w\<close>: the calls made since \<open>ws\<close> hold no \<^verbatim>\<open>ncclCommDestroy\<close>.
\<close>

definition no_comm_destroy :: "world \<Rightarrow> world \<Rightarrow> bool" where
  "no_comm_destroy ws w = (\<exists>tr. trace w = trace ws @ tr \<and> filter is_comm_destroy tr = [])"

subsection \<open>Reports on the error stream\<close>

text \<open>The lines a run has added to \<^verbatim>\<open>std::cerr\<close>.\<close>

definition new_cerr :: "world \<Rightarrow> world \<Rightarrow> string list" where
  "new_cerr w w' = drop (length (cerr w)) (cerr w')"

text \<open>
  \<open>failures_reported e w w'\<close>: every call made between \<open>w\<close> and \<open>w'\<close> that failed has
  its error text among the lines written to \<^verbatim>\<open>std::cerr\<close> since \<open>w\<close>.
\<close>

definition failures_reported :: "env \<Rightarrow> world \<Rightarrow> world \<Rightarrow> bool" where
  "failures_reported e w w' =
     list_all (\<lambda>k. fails e k \<longrightarrow> what e k \<in> set (new_cerr w w'))
       [length (trace w) ..< length (trace w')]"

text \<open>
  Inside a \<^verbatim>\<open>try\<close> block entered at \<open>ws\<close>: \<open>clean\<close> holds while no call has failed,
  \<open>failed_last\<close> when the last call made has failed and thrown.
\<close>

definition clean :: "env \<Rightarrow> world \<Rightarrow> world \<Rightarrow> bool" where
  "clean e ws w =
     (cerr w = cerr ws \<and> length (trace ws) \<le> length (trace w)
      \<and> (\<forall>k. length (trace ws) \<le> k \<and> k < length (trace w) \<longrightarrow> \<not> fails e k))"

definition failed_last :: "env \<Rightarrow> world \<Rightarrow> exn \<Rightarrow> world \<Rightarrow> bool" where
  "failed_last e ws x w =
     (cerr w = cerr ws \<and> length (trace ws) < length (trace w)
      \<and> (\<forall>k. length (trace ws) \<le> k \<and> k < length (trace w) - 1 \<longrightarrow> \<not> fails e k)
      \<and> (\<exists>ty. x = runtime_error ty (what e (length (trace w) - 1))))"

text \<open>\<open>reported e w w'\<close>: the run from \<open>w\<close> to \<open>w'\<close> only added calls and lines, and every
  failed call of it has its text among the added lines.\<close>

definition reported :: "env \<Rightarrow> world \<Rightarrow> world \<Rightarrow> bool" where
  "reported e w w' =
     ((\<exists>l. cerr w' = cerr w @ l) \<and> length (trace w) \<le> length (trace w')
      \<and> (\<forall>k. length (trace w) \<le> k \<and> k < length (trace w') \<and> fails e k
             \<longrightarrow> what e k \<in> set (new_cerr w w')))"

section \<open>Concrete inputs\<close>

text \<open>
  The scenario of the spec: local accelerators 0 and 1 with global ids 0 and 1 in a single
  process, on a host that shows two accelerators and where no native call fails.
\<close>

definition dm2 :: DeviceMap where
  "dm2 = \<lparr>get_device_list = [0, 1], get_global_id = (\<lambda>d. d), get_local_id = (\<lambda>d. d),
     get_local_device_id = (\<lambda>d. d), DeviceMap_size = 2, num_nodes = 1, get_pid = (\<lambda>_. 0)\<rparr>"

definition env_ok :: env where
  "env_ok = \<lparr>dev_count = 2, fails = (\<lambda>_. False), what = (\<lambda>_. ''native call failed''),
     comms_base = 4096, my_rank = 0, n_ranks = 1, unique_id = 7, root_id = 7\<rparr>"

definition w0 :: world where
  "w0 = \<lparr>trace = [], cerr = []\<rparr>"

definition no_mpi :: build where
  "no_mpi = \<lparr>ENABLE_MPI = False, total_gpu_count = 0\<rparr>"

text \<open>The same map with no local accelerator.\<close>

definition dm_empty :: DeviceMap where
  "dm_empty = dm2\<lparr>get_device_list := []\<rparr>"

text \<open>The second scenario of the spec: local accelerator 5 on a host that shows 4.\<close>

definition dm5 :: DeviceMap where
  "dm5 = dm2\<lparr>get_device_list := [5]\<rparr>"

definition env4 :: env where
  "env4 = env_ok\<lparr>dev_count := 4\<rparr>"

text \<open>The host of \<open>env_ok\<close> seen by a process of rank 1, whose root broadcasts token 7.\<close>

definition env_rank1 :: env where
  "env_rank1 = env_ok\<lparr>my_rank := 1, n_ranks := 2, unique_id := 9\<rparr>"

text \<open>A build with \<^verbatim>\<open>ENABLE_MPI\<close>, the identifier \<^verbatim>\<open>total_gpu_count\<close> bound to 2.\<close>

definition with_mpi :: build where
  "with_mpi = \<lparr>ENABLE_MPI = True, total_gpu_count = 2\<rparr>"

text \<open>What the constructor returns in the scenario of the spec, built without \<^verbatim>\<open>ENABLE_MPI\<close>.\<close>

definition r0 :: GPUResource where
  "r0 = \<lparr>stream_m = 11, data_copy_stream_m = [12, 13], cublas_handle_m = 8,
     curand_generator_m = 9, cudnn_handle_m = 10, device_id_m = 0, comm_m = Addr 4096\<rparr>"

definition r1 :: GPUResource where
  "r1 = \<lparr>stream_m = 19, data_copy_stream_m = [20, 21], cublas_handle_m = 16,
     curand_generator_m = 17, cudnn_handle_m = 18, device_id_m = 1, comm_m = Addr 4097\<rparr>"

definition g2 :: GPUResourceGroup where
  "g2 = \<lparr>comms_m = Addr 4096, comms_array = [Comm 5 0, Comm 5 1], device_map_m = dm2,
     gpu_resources_m = [r0, r1], train_thread_pool = 2, results = 2\<rparr>"

definition w2 :: world where
  "w2 = \<lparr>trace = [ThreadPoolCreate 2, SetAffinity 0, SetAffinity 1, CudaGetDeviceCount,
      NewCommArray 2, NcclCommInitAll (Addr 4096) 2 [0, 1],
      NewGPUResource, CudaDeviceContext 0, CublasCreate, CurandCreateGenerator, CudnnCreate,
      CudaStreamCreate, CudaStreamCreate, CudaStreamCreate,
      NewGPUResource, CudaDeviceContext 1, CublasCreate, CurandCreateGenerator, CudnnCreate,
      CudaStreamCreate, CudaStreamCreate, CudaStreamCreate], cerr = []\<rparr>"

text \<open>The host of \<open>env_ok\<close> where the call with ordinal 22 fails: the first call after the
  construction of the group of the scenario.\<close>

definition env_d :: env where
  "env_d = env_ok\<lparr>fails := (\<lambda>k. k = 22)\<rparr>"

section \<open>Rules for runs\<close>

lemma tripleD_Inr: "triple P m Q E \<Longrightarrow> P w \<Longrightarrow> m w = (Inr a, w') \<Longrightarrow> Q a w'"
  by (simp add: triple_def split: prod.splits sum.splits)

lemma tripleD_Inl: "triple P m Q E \<Longrightarrow> P w \<Longrightarrow> m w = (Inl x, w') \<Longrightarrow> E x w'"
  by (simp add: triple_def split: prod.splits sum.splits)

lemma triple_return: "(\<And>w. P w \<Longrightarrow> Q x w) \<Longrightarrow> triple P (return_p x) Q E"
  by (simp add: triple_def return_p_def)

lemma triple_throw: "(\<And>w. P w \<Longrightarrow> E x w) \<Longrightarrow> triple P (throw_p x) Q E"
  by (simp add: triple_def throw_p_def)

lemma triple_bind:
  assumes "triple P m R E" and "\<And>a. triple (R a) (f a) Q E"
  shows "triple P (bind_p m f) Q E"
  unfolding triple_def
proof (intro allI impI)
  fix w assume P: "P w"
  obtain r w1 where mw: "m w = (r, w1)" by (cases "m w")
  show "case bind_p m f w of (Inr a, w') \<Rightarrow> Q a w' | (Inl x, w') \<Rightarrow> E x w'"
  proof (cases r)
    case (Inl x)
    with mw tripleD_Inl [OF assms(1) P] show ?thesis by (simp add: bind_p_def)
  next
    case (Inr a)
    with mw have "R a w1" using tripleD_Inr [OF assms(1) P] by simp
    with assms(2) [of a] Inr mw show ?thesis by (simp add: bind_p_def triple_def)
  qed
qed

lemma triple_weaken:
  assumes "triple P' m Q' E'" and "\<And>w. P w \<Longrightarrow> P' w" and "\<And>a w. Q' a w \<Longrightarrow> Q a w"
    and "\<And>x w. E' x w \<Longrightarrow> E x w"
  shows "triple P m Q E"
  using assms unfolding triple_def by (fastforce split: prod.splits sum.splits)

lemma triple_if:
  "(c \<Longrightarrow> triple P m1 Q E) \<Longrightarrow> (\<not> c \<Longrightarrow> triple P m2 Q E) \<Longrightarrow> triple P (if c then m1 else m2) Q E"
  by simp

lemma triple_emit:
  "(\<And>w. P w \<Longrightarrow> Q (length (trace w)) (w\<lparr>trace := trace w @ [c]\<rparr>)) \<Longrightarrow> triple P (emit c) Q E"
  by (simp add: triple_def emit_def)

lemma triple_CK:
  assumes "\<And>w. P w \<Longrightarrow> \<not> fails e (length (trace w)) \<Longrightarrow> Q (length (trace w)) (w\<lparr>trace := trace w @ [c]\<rparr>)"
    and "\<And>w. P w \<Longrightarrow> fails e (length (trace w)) \<Longrightarrow>
           E (runtime_error ty (what e (length (trace w)))) (w\<lparr>trace := trace w @ [c]\<rparr>)"
  shows "triple P (CK_THROW e ty c) Q E"
  using assms by (simp add: triple_def CK_THROW_def Let_def)

lemma triple_new:
  assumes "\<And>w. P w \<Longrightarrow> \<not> fails e (length (trace w)) \<Longrightarrow> Q (length (trace w)) (w\<lparr>trace := trace w @ [c]\<rparr>)"
    and "\<And>w. P w \<Longrightarrow> fails e (length (trace w)) \<Longrightarrow> E bad_alloc (w\<lparr>trace := trace w @ [c]\<rparr>)"
  shows "triple P (operator_new e c) Q E"
  using assms by (simp add: triple_def operator_new_def Let_def)

lemma for_loop_triple_aux:
  "(\<And>j t. j < n \<Longrightarrow> triple (I j t) (body j t) (I (Suc j)) E) \<Longrightarrow> i \<le> n \<Longrightarrow> I i s w \<Longrightarrow>
    (case for_loop i n body s w of (Inr a, w') \<Rightarrow> I n a w' | (Inl x, w') \<Rightarrow> E x w')"
proof (induction i n body s w rule: for_loop.induct)
  case (1 i n body s w)
  note step = "1.prems"(1)
  show ?case
  proof (cases "i < n")
    case False
    with "1.prems" show ?thesis by (simp add: for_loop.simps)
  next
    case True
    obtain r w1 where bw: "body i s w = (r, w1)" by (cases "body i s w")
    show ?thesis
    proof (cases r)
      case (Inl x)
      with bw True tripleD_Inl [OF step [OF True] "1.prems"(3)]
      show ?thesis by (simp add: for_loop.simps)
    next
      case (Inr t)
      with bw have "I (Suc i) t w1" using tripleD_Inr [OF step [OF True] "1.prems"(3)] by simp
      moreover have "Suc i \<le> n" using True by simp
      ultimately have "case for_loop (Suc i) n body t w1 of (Inr a, w') \<Rightarrow> I n a w' | (Inl x, w') \<Rightarrow> E x w'"
        by (intro "1.IH" [OF True bw [symmetric] Inr] step)
      with True bw Inr show ?thesis by (subst for_loop.simps) simp
    qed
  qed
qed

lemma triple_for_loop:
  assumes "\<And>j t. j < n \<Longrightarrow> triple (I j t) (body j t) (I (Suc j)) E" and "i \<le> n"
  shows "triple (I i s) (for_loop i n body s) (I n) E"
  unfolding triple_def
proof (intro allI impI)
  fix w assume "I i s w"
  then show "case for_loop i n body s w of (Inr a, w') \<Rightarrow> I n a w' | (Inl x, w') \<Rightarrow> E x w'"
    by (intro for_loop_triple_aux assms)
qed

section \<open>The checks of the constructor\<close>

lemma world_trace_append_Nil [simp]: "w\<lparr>trace := trace w @ []\<rparr> = w"
  by simp

lemma affinity_loop:
  "for_loop i n (\<lambda>i u. bind_p (emit (SetAffinity i)) (\<lambda>_. return_p ())) () w =
     (Inr (), w\<lparr>trace := trace w @ map SetAffinity [i ..< n]\<rparr>)"
proof (induction "n - i" arbitrary: i w)
  case 0
  then show ?case by (subst for_loop.simps) simp
next
  case (Suc d)
  then have lt: "i < n" and d: "d = n - Suc i" by simp_all
  show ?case
    using lt Suc.hyps(1) [OF d]
    by (subst for_loop.simps) (simp add: bind_p_def emit_def return_p_def upt_conv_Cons)
qed

lemma check_devices_eq:
  "check_devices dc dl w =
     (case find (\<lambda>d. dc \<le> d) dl of
        None \<Rightarrow> (Inr (), w)
      | Some d \<Rightarrow> (Inl (runtime_error WrongInput (''Invalid device id: '' @ to_string d)), w))"
  by (induction dl) (simp_all add: return_p_def throw_p_def)

lemma ctor_validate:
  "GPUResourceGroup_ctor b e dm w =
     (if get_device_list dm = []
      then (Inl (runtime_error WrongInput ''Empty device_list''),
            w\<lparr>trace := trace w @ [ThreadPoolCreate 0]\<rparr>)
      else case find (\<lambda>d. dev_count e \<le> d) (get_device_list dm) of
             Some d \<Rightarrow>
               (Inl (runtime_error WrongInput (''Invalid device id: '' @ to_string d)),
                w\<lparr>trace := trace w @ ThreadPoolCreate (length (get_device_list dm))
                     # map SetAffinity [0 ..< length (get_device_list dm)] @ [CudaGetDeviceCount]\<rparr>)
           | None \<Rightarrow>
               ctor_acquire b e dm
                 \<lparr>comms_m = nullptr, comms_array = [], device_map_m = dm, gpu_resources_m = [],
                  train_thread_pool = length (get_device_list dm),
                  results = length (get_device_list dm)\<rparr>
                 (w\<lparr>trace := trace w @ ThreadPoolCreate (length (get_device_list dm))
                     # map SetAffinity [0 ..< length (get_device_list dm)] @ [CudaGetDeviceCount]\<rparr>))"
  by (simp add: GPUResourceGroup_ctor_def Let_def bind_p_def emit_def affinity_loop
      check_devices_eq size_group_def throw_p_def split: option.splits)

lemma throws_only_return: "throws_only P (return_p x)"
  unfolding throws_only_def by (rule triple_return) simp

lemma throws_only_bind:
  "throws_only P m \<Longrightarrow> (\<And>a. throws_only P (f a)) \<Longrightarrow> throws_only P (bind_p m f)"
  unfolding throws_only_def by (rule triple_bind)

lemma throws_only_CK: "(\<And>msg. P (runtime_error ty msg)) \<Longrightarrow> throws_only P (CK_THROW e ty c)"
  unfolding throws_only_def by (rule triple_CK) simp_all

lemma throws_only_new: "P bad_alloc \<Longrightarrow> throws_only P (operator_new e c)"
  unfolding throws_only_def by (rule triple_new) simp_all

lemma throws_only_for_loop:
  assumes "\<And>j t. throws_only P (body j t)"
  shows "throws_only P (for_loop i n body s)"
proof (cases "i \<le> n")
  case True
  have "triple (\<lambda>_. True) (for_loop i n body s) (\<lambda>_ _. True) (\<lambda>x _. P x)"
    by (rule triple_for_loop [where I = "\<lambda>_ _ _. True"])
       (use assms True in \<open>simp_all add: throws_only_def\<close>)
  then show ?thesis by (simp add: throws_only_def)
next
  case False
  then show ?thesis
    by (simp add: throws_only_def triple_def for_loop.simps)
qed

lemma throws_only_D: "throws_only P m \<Longrightarrow> m w = (Inl x, w') \<Longrightarrow> P x"
  unfolding throws_only_def by (drule tripleD_Inl [where w = w]) simp_all

lemma GPUResource_ctor_throws: "throws_only not_wrong_input (GPUResource_ctor e d c)"
  unfolding GPUResource_ctor_def
  by (intro throws_only_bind throws_only_CK throws_only_return) (simp_all add: not_wrong_input_def)

lemma bootstrap_mpi_throws: "throws_only not_wrong_input (bootstrap_mpi e tgc comms dm dl arr)"
  unfolding bootstrap_mpi_def join_body_def
  by (intro throws_only_bind throws_only_CK throws_only_return throws_only_for_loop)
     (simp_all add: not_wrong_input_def throws_only_return throws_only_bind throws_only_CK)

lemma ctor_acquire_throws: "throws_only not_wrong_input (ctor_acquire b e dm this)"
  unfolding ctor_acquire_def Let_def bootstrap_local_def resource_body_def
  by (intro throws_only_bind throws_only_CK throws_only_return throws_only_for_loop
        throws_only_new GPUResource_ctor_throws)
     (simp_all add: not_wrong_input_def bootstrap_mpi_throws throws_only_return throws_only_bind
        throws_only_CK)


subsection \<open>The cross-checks\<close>

text \<open>
  C9. The constructor compares the local accelerator count with \<^verbatim>\<open>size()\<close>, and later the
  length of the device list with the local accelerator count. \<^verbatim>\<open>size()\<close> is the length of
  the device list of the map the group holds, the quantity it is compared with: for every
  build, host, device map and starting world the constructor never ends in either of the
  two errors.
\<close>

theorem cross_checks_unreachable:
  "fst (GPUResourceGroup_ctor b e dm w) \<noteq> Inl (runtime_error WrongInput ''local_gpu_count != size()'')
   \<and> fst (GPUResourceGroup_ctor b e dm w) \<noteq>
       Inl (runtime_error WrongInput ''device_map->get_device_list().size() != local_gpu_count'')"
proof -
  have acq: "fst (ctor_acquire b e dm this u) \<noteq> Inl (runtime_error WrongInput msg)" for this u msg
  proof
    assume a: "fst (ctor_acquire b e dm this u) = Inl (runtime_error WrongInput msg)"
    obtain u' where "ctor_acquire b e dm this u = (Inl (runtime_error WrongInput msg), u')"
      using a by (cases "ctor_acquire b e dm this u") simp
    from throws_only_D [OF ctor_acquire_throws this] show False
      by (simp add: not_wrong_input_def)
  qed
  show ?thesis
    by (simp add: ctor_validate acq split: option.splits)
qed

subsection \<open>Device maps the constructor refuses\<close>

lemma new_calls_append [simp]: "new_calls w (w\<lparr>trace := trace w @ tr\<rparr>) = tr"
  by (simp add: new_calls_def)

lemma GPUResource_ctor_Inr:
  assumes "GPUResource_ctor e d c w = (Inr r, w')"
  shows "r = \<lparr>stream_m = length (trace w) + 4,
               data_copy_stream_m = [length (trace w) + 5, length (trace w) + 6],
               cublas_handle_m = length (trace w) + 1, curand_generator_m = length (trace w) + 2,
               cudnn_handle_m = length (trace w) + 3, device_id_m = d, comm_m = c\<rparr>"
    and "w' = w\<lparr>trace := trace w @ [CudaDeviceContext d, CublasCreate, CurandCreateGenerator,
               CudnnCreate, CudaStreamCreate, CudaStreamCreate, CudaStreamCreate]\<rparr>"
  using assms
  by (auto simp: GPUResource_ctor_def bind_p_def CK_THROW_def return_p_def Let_def
      split: if_splits)

text \<open>
  C5. A device map whose local accelerator list is empty: the constructor throws the
  \<^verbatim>\<open>WrongInput\<close> error "Empty device_list", and the only call it has made is the creation
  of a thread pool of size 0: no communicator, handle or stream was created.
\<close>

theorem empty_device_list_fails:
  assumes "get_device_list dm = []"
  shows "GPUResourceGroup_ctor b e dm w =
           (Inl (runtime_error WrongInput ''Empty device_list''),
            w\<lparr>trace := trace w @ [ThreadPoolCreate 0]\<rparr>)
         \<and> filter creates_native_resource
              (new_calls w (snd (GPUResourceGroup_ctor b e dm w))) = []"
  using assms by (simp add: ctor_validate)

theorem empty_device_list_fails_witness:
  "get_device_list dm_empty = []
   \<and> GPUResourceGroup_ctor no_mpi env_ok dm_empty w0 =
       (Inl (runtime_error WrongInput ''Empty device_list''),
        \<lparr>trace = [ThreadPoolCreate 0], cerr = []\<rparr>)"
proof -
  have h: "get_device_list dm_empty = []" by (simp add: dm_empty_def)
  show ?thesis
    using h empty_device_list_fails [OF h, of no_mpi env_ok w0] by (simp add: w0_def)
qed

text \<open>
  C6. Some local accelerator identifier is not below the number of accelerators the host
  shows: the constructor throws the \<^verbatim>\<open>WrongInput\<close> error "Invalid device id: d" for the
  first such identifier \<open>d\<close> of the list, having made only the calls of the thread pool,
  the affinity loop and \<^verbatim>\<open>cudaGetDeviceCount\<close>: no communicator, handle or stream was
  created, and no group is returned.
\<close>

theorem invalid_device_id_fails:
  assumes "\<exists>d \<in> set (get_device_list dm). dev_count e \<le> d"
  shows "\<exists>d \<in> set (get_device_list dm). dev_count e \<le> d
          \<and> find (\<lambda>d. dev_count e \<le> d) (get_device_list dm) = Some d
          \<and> GPUResourceGroup_ctor b e dm w =
              (Inl (runtime_error WrongInput (''Invalid device id: '' @ to_string d)),
               w\<lparr>trace := trace w @ ThreadPoolCreate (length (get_device_list dm))
                    # map SetAffinity [0 ..< length (get_device_list dm)] @ [CudaGetDeviceCount]\<rparr>)
          \<and> filter creates_native_resource
               (new_calls w (snd (GPUResourceGroup_ctor b e dm w))) = []"
proof -
  from assms obtain d where f: "find (\<lambda>d. dev_count e \<le> d) (get_device_list dm) = Some d"
    by (cases "find (\<lambda>d. dev_count e \<le> d) (get_device_list dm)") (auto simp: find_None_iff)
  then have d: "d \<in> set (get_device_list dm)" "dev_count e \<le> d"
    by (auto simp: find_Some_iff)
  from d(1) have ne: "get_device_list dm \<noteq> []" by auto
  have "\<not> creates_native_resource c" if "c \<in> set (map SetAffinity [0 ..< n])" for c n
    using that by auto
  then have flt: "filter creates_native_resource (map SetAffinity [0 ..< n]) = []" for n
    by (simp only: filter_empty_conv) blast
  show ?thesis
    using d f ne by (intro bexI [of _ d]) (simp_all add: ctor_validate flt)
qed

theorem invalid_device_id_fails_witness:
  "(\<exists>d \<in> set (get_device_list dm5). dev_count env4 \<le> d)
   \<and> GPUResourceGroup_ctor no_mpi env4 dm5 w0 =
       (Inl (runtime_error WrongInput ''Invalid device id: 5''),
        \<lparr>trace = [ThreadPoolCreate 1, SetAffinity 0, CudaGetDeviceCount], cerr = []\<rparr>)"
proof -
  have h: "\<exists>d \<in> set (get_device_list dm5). dev_count env4 \<le> d"
    by (simp add: dm5_def env4_def env_ok_def)
  show ?thesis
    using h invalid_device_id_fails [OF h, of no_mpi w0]
    by (simp add: dm5_def env4_def env_ok_def w0_def to_string_def digits.simps)
qed

section \<open>The data-copy stream accessor\<close>

text \<open>
  C7. A constructed resource holds two data-copy streams, made by two different calls, and
  \<^verbatim>\<open>get_data_copy_stream\<close> returns the one in slot 0 whatever index it is given.
\<close>

theorem data_copy_stream_index_ignored:
  assumes "GPUResource_ctor e d c w = (Inr r, w')"
  shows "length (data_copy_stream_m r) = 2
         \<and> data_copy_stream_m r ! 0 \<noteq> data_copy_stream_m r ! 1
         \<and> (\<forall>i j. get_data_copy_stream r i = get_data_copy_stream r j
                 \<and> get_data_copy_stream r i = data_copy_stream_m r ! 0)"
  using GPUResource_ctor_Inr(1) [OF assms] by (simp add: get_data_copy_stream_def)

theorem data_copy_stream_index_ignored_witness:
  "GPUResource_ctor env_ok 0 (Addr 4096) w0 =
     (Inr \<lparr>stream_m = 4, data_copy_stream_m = [5, 6], cublas_handle_m = 1,
           curand_generator_m = 2, cudnn_handle_m = 3, device_id_m = 0, comm_m = Addr 4096\<rparr>,
      \<lparr>trace = [CudaDeviceContext 0, CublasCreate, CurandCreateGenerator, CudnnCreate,
          CudaStreamCreate, CudaStreamCreate, CudaStreamCreate], cerr = []\<rparr>)
   \<and> get_data_copy_stream \<lparr>stream_m = 4, data_copy_stream_m = [5, 6], cublas_handle_m = 1,
           curand_generator_m = 2, cudnn_handle_m = 3, device_id_m = 0, comm_m = Addr 4096\<rparr> 1 = 5"
proof -
  have h: "GPUResource_ctor env_ok 0 (Addr 4096) w0 =
     (Inr \<lparr>stream_m = 4, data_copy_stream_m = [5, 6], cublas_handle_m = 1,
           curand_generator_m = 2, cudnn_handle_m = 3, device_id_m = 0, comm_m = Addr 4096\<rparr>,
      \<lparr>trace = [CudaDeviceContext 0, CublasCreate, CurandCreateGenerator, CudnnCreate,
          CudaStreamCreate, CudaStreamCreate, CudaStreamCreate], cerr = []\<rparr>)"
    by (simp add: GPUResource_ctor_def bind_p_def CK_THROW_def return_p_def Let_def
        env_ok_def w0_def)
  show ?thesis
    using h data_copy_stream_index_ignored [OF h] by simp
qed

section \<open>Successful constructions\<close>

lemma bind_p_InrE:
  assumes "bind_p m f w = (Inr b, w'')"
  obtains a w' where "m w = (Inr a, w')" and "f a w' = (Inr b, w'')"
  using assms by (auto simp: bind_p_def split: prod.splits sum.splits)

lemma CK_THROW_Inr:
  assumes "CK_THROW e ty c w = (Inr k, w')"
  shows "k = length (trace w)" and "w' = w\<lparr>trace := trace w @ [c]\<rparr>"
  using assms by (auto simp: CK_THROW_def Let_def split: if_splits)

lemma operator_new_Inr:
  assumes "operator_new e c w = (Inr k, w')"
  shows "k = length (trace w)" and "w' = w\<lparr>trace := trace w @ [c]\<rparr>"
  using assms by (auto simp: operator_new_def Let_def split: if_splits)

lemma return_p_Inr: "return_p x w = (Inr y, w') \<Longrightarrow> y = x \<and> w' = w"
  by (simp add: return_p_def)

lemma resource_body_triple:
  "triple (resources_inv comms dl t0 j rs) (resource_body e comms dl j rs)
     (resources_inv comms dl t0 (Suc j)) (\<lambda>_ _. True)"
  unfolding triple_def
proof (intro allI impI)
  fix w assume inv: "resources_inv comms dl t0 j rs w"
  show "case resource_body e comms dl j rs w of
          (Inr a, w') \<Rightarrow> resources_inv comms dl t0 (Suc j) a w' | (Inl x, w') \<Rightarrow> True"
  proof (cases "resource_body e comms dl j rs w")
    case (Pair res w')
    show ?thesis
    proof (cases res)
      case (Inl x)
      with Pair show ?thesis by simp
    next
      case (Inr rs')
      with Pair have run: "resource_body e comms dl j rs w = (Inr rs', w')" by simp
      from run obtain k w1 r w2 where
        n: "operator_new e NewGPUResource w = (Inr k, w1)" and
        c: "GPUResource_ctor e (dl ! j) (ptr_add comms j) w1 = (Inr r, w2)" and
        r: "return_p (rs @ [r]) w2 = (Inr rs', w')"
        unfolding resource_body_def by (elim bind_p_InrE) blast
      from r have rs': "rs' = rs @ [r]" and w': "w' = w2" by (simp_all add: return_p_def)
      have fields: "device_id_m r = dl ! j" "comm_m r = ptr_add comms j"
        using GPUResource_ctor_Inr(1) [OF c] by simp_all
      have tr: "\<exists>tr. trace w' = t0 @ tr"
        using inv operator_new_Inr(2) [OF n] GPUResource_ctor_Inr(2) [OF c] w'
        by (auto simp: resources_inv_def)
      have "resources_inv comms dl t0 (Suc j) rs' w'"
        using inv fields tr rs' by (auto simp: resources_inv_def nth_append less_Suc_eq)
      with run show ?thesis by simp
    qed
  qed
qed

lemma resources_loop_Inr:
  assumes "for_loop 0 n (resource_body e comms dl) [] w = (Inr rs, w')"
  shows "resources_inv comms dl (trace w) n rs w'"
proof -
  have "triple (resources_inv comms dl (trace w) 0 []) (for_loop 0 n (resource_body e comms dl) [])
          (resources_inv comms dl (trace w) n) (\<lambda>_ _. True)"
    by (rule triple_for_loop) (simp_all add: resource_body_triple)
  moreover have "resources_inv comms dl (trace w) 0 [] w" by (simp add: resources_inv_def)
  ultimately show ?thesis using assms by (rule tripleD_Inr)
qed

lemma bootstrap_local_Inr:
  assumes "bootstrap_local e comms dl w = (Inr arr, w')"
  shows "arr = map (Comm (length (trace w))) [0 ..< length dl]"
    and "w' = w\<lparr>trace := trace w @ [NcclCommInitAll comms (length dl) dl]\<rparr>"
  using assms
  by (auto simp: bootstrap_local_def bind_p_def CK_THROW_def return_p_def Let_def
      split: if_splits)

lemma join_calls_Suc:
  "join_calls comms tgc nid dm dl (Suc j) =
     join_calls comms tgc nid dm dl j
     @ [CudaSetDevice (dl ! j),
        NcclCommInitRank (ptr_add comms j) tgc nid (get_global_id dm (dl ! j))]"
  by (simp add: join_calls_def)

lemma join_body_triple:
  assumes "j < length dl"
  shows "triple (join_inv comms tgc nid dm dl t0 j arr) (join_body e comms tgc nid dm dl j arr)
           (join_inv comms tgc nid dm dl t0 (Suc j)) (\<lambda>_ _. True)"
  unfolding triple_def
proof (intro allI impI)
  fix w assume inv: "join_inv comms tgc nid dm dl t0 j arr w"
  show "case join_body e comms tgc nid dm dl j arr w of
          (Inr a, w') \<Rightarrow> join_inv comms tgc nid dm dl t0 (Suc j) a w' | (Inl x, w') \<Rightarrow> True"
  proof (cases "join_body e comms tgc nid dm dl j arr w")
    case (Pair res w')
    show ?thesis
    proof (cases res)
      case (Inl x)
      with Pair show ?thesis by simp
    next
      case (Inr arr')
      with Pair have run: "join_body e comms tgc nid dm dl j arr w = (Inr arr', w')" by simp
      from run obtain k1 w1 k2 w2 where
        s: "CK_THROW e CudaError (CudaSetDevice (dl ! j)) w = (Inr k1, w1)" and
        c: "CK_THROW e NcclError (NcclCommInitRank (ptr_add comms j) tgc nid
              (get_global_id dm (dl ! j))) w1 = (Inr k2, w2)" and
        r: "return_p (arr[j := Comm k2 0]) w2 = (Inr arr', w')"
        unfolding join_body_def by (elim bind_p_InrE) blast
      from r have arr': "arr' = arr[j := Comm k2 0]" and w': "w' = w2"
        by (simp_all add: return_p_def)
      have tr: "trace w' = trace w @ [CudaSetDevice (dl ! j),
          NcclCommInitRank (ptr_add comms j) tgc nid (get_global_id dm (dl ! j))]"
        using CK_THROW_Inr(2) [OF s] CK_THROW_Inr(2) [OF c] w' by simp
      have "join_inv comms tgc nid dm dl t0 (Suc j) arr' w'"
        using inv tr arr' assms
        by (auto simp: join_inv_def join_calls_Suc nth_list_update less_Suc_eq)
      with run show ?thesis by simp
    qed
  qed
qed

lemma join_loop_Inr:
  assumes "for_loop 0 (length dl) (join_body e comms tgc nid dm dl) arr w = (Inr arr', w')"
    and "length arr = length dl"
  shows "join_inv comms tgc nid dm dl (trace w) (length dl) arr' w'"
proof -
  have "triple (join_inv comms tgc nid dm dl (trace w) 0 arr)
          (for_loop 0 (length dl) (join_body e comms tgc nid dm dl) arr)
          (join_inv comms tgc nid dm dl (trace w) (length dl)) (\<lambda>_ _. True)"
    by (rule triple_for_loop) (simp_all add: join_body_triple)
  moreover have "join_inv comms tgc nid dm dl (trace w) 0 arr w"
    using assms(2) by (simp add: join_inv_def join_calls_def)
  ultimately show ?thesis using assms(1) by (rule tripleD_Inr)
qed

lemma bootstrap_mpi_Inr:
  assumes run: "bootstrap_mpi e tgc comms dm dl arr w = (Inr arr', w')"
    and len: "length arr = length dl"
  shows "length arr' = length dl" and "\<forall>k<length dl. arr' ! k \<noteq> null_comm"
    and "trace w' = trace w @ mpi_calls e tgc comms dm dl"
proof -
  from run obtain k1 w1 k2 w2 nid0 w3 k4 w4 nid w5 k6 w6 a7 w7 k8 w8 where
    c1: "CK_THROW e MpiError MPI_Comm_rank w = (Inr k1, w1)" and
    c2: "CK_THROW e MpiError MPI_Comm_size w1 = (Inr k2, w2)" and
    c3: "(if my_rank e = 0
          then bind_p (CK_THROW e NcclError NcclGetUniqueId) (\<lambda>_. return_p (Some (unique_id e)))
          else return_p None) w2 = (Inr nid0, w3)" and
    c4: "CK_THROW e MpiError (MPI_Bcast 0) w3 = (Inr k4, w4)" and
    c5: "return_p (if my_rank e = 0 then nid0 else Some (root_id e)) w4 = (Inr nid, w5)" and
    c6: "CK_THROW e NcclError NcclGroupStart w5 = (Inr k6, w6)" and
    c7: "for_loop 0 (length dl) (join_body e comms tgc nid dm dl) arr w6 = (Inr a7, w7)" and
    c8: "CK_THROW e NcclError NcclGroupEnd w7 = (Inr k8, w8)" and
    c9: "return_p a7 w8 = (Inr arr', w')"
    unfolding bootstrap_mpi_def by (elim bind_p_InrE) blast
  have t3: "trace w3 = trace w2 @ (if my_rank e = 0 then [NcclGetUniqueId] else [])"
    and n0: "my_rank e = 0 \<Longrightarrow> nid0 = Some (unique_id e)"
    using c3 by (auto simp: bind_p_def CK_THROW_def return_p_def Let_def split: if_splits)
  have nid: "nid = Some (if my_rank e = 0 then unique_id e else root_id e)" and w5: "w5 = w4"
    using c5 n0 by (auto simp: return_p_def)
  have arr': "arr' = a7" and w': "w' = w8" using c9 by (simp_all add: return_p_def)
  note inv = join_loop_Inr [OF c7 len]
  show "length arr' = length dl" and "\<forall>k<length dl. arr' ! k \<noteq> null_comm"
    using inv arr' by (simp_all add: join_inv_def)
  have "trace w7 = trace w6 @ join_calls comms tgc nid dm dl (length dl)"
    using inv by (simp add: join_inv_def)
  then show "trace w' = trace w @ mpi_calls e tgc comms dm dl"
    using CK_THROW_Inr(2) [OF c1] CK_THROW_Inr(2) [OF c2] t3 CK_THROW_Inr(2) [OF c4] w5
      CK_THROW_Inr(2) [OF c6] CK_THROW_Inr(2) [OF c8] w' nid
    by (simp add: mpi_calls_def)
qed

lemma ctor_acquire_Inr:
  assumes run: "ctor_acquire b e dm this w = (Inr g, w')"
  shows "g = this\<lparr>comms_m := Addr (comms_base e), comms_array := comms_array g,
                  gpu_resources_m := gpu_resources_m g\<rparr>"
    and "length (comms_array g) = length (get_device_list dm)"
    and "\<forall>k<length (get_device_list dm). comms_array g ! k \<noteq> null_comm"
    and "resources_inv (Addr (comms_base e)) (get_device_list dm)
           (trace w @ NewCommArray (length (get_device_list dm)) # bootstrap_calls b e dm)
           (length (get_device_list dm)) (gpu_resources_m g) w'"
proof -
  let ?dl = "get_device_list dm" and ?comms = "Addr (comms_base e)"
  from run obtain k1 w1 arr' w2 rs w3 where
    c1: "operator_new e (NewCommArray (length ?dl)) w = (Inr k1, w1)" and
    c2: "(if ENABLE_MPI b
          then bootstrap_mpi e (total_gpu_count b) ?comms dm ?dl (replicate (length ?dl) null_comm)
          else bootstrap_local e ?comms ?dl) w1 = (Inr arr', w2)" and
    c3: "for_loop 0 (length ?dl) (resource_body e ?comms ?dl) [] w2 = (Inr rs, w3)" and
    c4: "return_p (this\<lparr>comms_m := ?comms, comms_array := arr', gpu_resources_m := rs\<rparr>) w3
           = (Inr g, w')"
    unfolding ctor_acquire_def Let_def by (elim bind_p_InrE) blast
  from c4 have g: "g = this\<lparr>comms_m := ?comms, comms_array := arr', gpu_resources_m := rs\<rparr>"
    and w': "w' = w3" by (simp_all add: return_p_def)
  have t1: "trace w1 = trace w @ [NewCommArray (length ?dl)]"
    using operator_new_Inr(2) [OF c1] by simp
  have boot: "length arr' = length ?dl \<and> (\<forall>k<length ?dl. arr' ! k \<noteq> null_comm)
      \<and> trace w2 = trace w1 @ bootstrap_calls b e dm"
  proof (cases "ENABLE_MPI b")
    case True
    with c2 have m: "bootstrap_mpi e (total_gpu_count b) ?comms dm ?dl
        (replicate (length ?dl) null_comm) w1 = (Inr arr', w2)" by simp
    have l: "length (replicate (length ?dl) null_comm) = length ?dl" by simp
    show ?thesis
      using bootstrap_mpi_Inr [OF m l] True by (simp add: bootstrap_calls_def)
  next
    case False
    with c2 have m: "bootstrap_local e ?comms ?dl w1 = (Inr arr', w2)" by simp
    show ?thesis
      using bootstrap_local_Inr [OF m] False by (simp add: bootstrap_calls_def)
  qed
  show "g = this\<lparr>comms_m := Addr (comms_base e), comms_array := comms_array g,
                  gpu_resources_m := gpu_resources_m g\<rparr>"
    using g by simp
  show "length (comms_array g) = length ?dl" using g boot by simp
  show "\<forall>k<length ?dl. comms_array g ! k \<noteq> null_comm" using g boot by simp
  show "resources_inv ?comms ?dl (trace w @ NewCommArray (length ?dl) # bootstrap_calls b e dm)
          (length ?dl) (gpu_resources_m g) w'"
    using resources_loop_Inr [OF c3] g w' boot t1 by simp
qed

text \<open>What a successful construction of the group has done.\<close>

lemma ctor_Inr:
  assumes run: "GPUResourceGroup_ctor b e dm w = (Inr g, w')"
  shows "get_device_list dm \<noteq> []"
    and "\<forall>d \<in> set (get_device_list dm). d < dev_count e"
    and "device_map_m g = dm"
    and "comms_m g = Addr (comms_base e)"
    and "length (comms_array g) = length (get_device_list dm)"
    and "\<forall>k<length (get_device_list dm). comms_array g ! k \<noteq> null_comm"
    and "length (gpu_resources_m g) = length (get_device_list dm)"
    and "\<forall>k<length (get_device_list dm).
           device_id_m (gpu_resources_m g ! k) = get_device_list dm ! k
           \<and> comm_m (gpu_resources_m g ! k) = Addr (comms_base e + k)"
    and "\<exists>post. new_calls w w' =
            ThreadPoolCreate (length (get_device_list dm))
            # map SetAffinity [0 ..< length (get_device_list dm)]
            @ CudaGetDeviceCount # NewCommArray (length (get_device_list dm))
            # bootstrap_calls b e dm @ post"
proof -
  let ?dl = "get_device_list dm"
  let ?self = "\<lparr>comms_m = nullptr, comms_array = [], device_map_m = dm, gpu_resources_m = [],
                  train_thread_pool = length ?dl, results = length ?dl\<rparr>"
  let ?w2 = "w\<lparr>trace := trace w @ ThreadPoolCreate (length ?dl)
                     # map SetAffinity [0 ..< length ?dl] @ [CudaGetDeviceCount]\<rparr>"
  show ne: "?dl \<noteq> []" using run by (auto simp: ctor_validate)
  have fnd: "find (\<lambda>d. dev_count e \<le> d) ?dl = None"
    using run ne by (auto simp: ctor_validate split: option.splits)
  then show "\<forall>d \<in> set ?dl. d < dev_count e" by (auto simp: find_None_iff)
  have acq: "ctor_acquire b e dm ?self ?w2 = (Inr g, w')"
    using run ne fnd by (simp add: ctor_validate)
  note facts = ctor_acquire_Inr [OF acq]
  have g: "g = ?self\<lparr>comms_m := Addr (comms_base e), comms_array := comms_array g,
                  gpu_resources_m := gpu_resources_m g\<rparr>" by (rule facts(1))
  show "device_map_m g = dm" by (subst g) simp
  show "comms_m g = Addr (comms_base e)" by (subst g) simp
  show "length (comms_array g) = length ?dl" by (rule facts(2))
  show "\<forall>k<length ?dl. comms_array g ! k \<noteq> null_comm" by (rule facts(3))
  show "length (gpu_resources_m g) = length ?dl"
    using facts(4) by (simp add: resources_inv_def)
  show "\<forall>k<length ?dl. device_id_m (gpu_resources_m g ! k) = ?dl ! k
           \<and> comm_m (gpu_resources_m g ! k) = Addr (comms_base e + k)"
    using facts(4) by (simp add: resources_inv_def)
  from facts(4) obtain post where
    "trace w' = (trace ?w2 @ NewCommArray (length ?dl) # bootstrap_calls b e dm) @ post"
    unfolding resources_inv_def by blast
  then show "\<exists>post. new_calls w w' =
            ThreadPoolCreate (length ?dl) # map SetAffinity [0 ..< length ?dl]
            @ CudaGetDeviceCount # NewCommArray (length ?dl) # bootstrap_calls b e dm @ post"
    by (simp add: new_calls_def)
qed

lemma ctor_dm2: "GPUResourceGroup_ctor no_mpi env_ok dm2 w0 = (Inr g2, w2)"
  by (simp add: ctor_validate ctor_acquire_def bootstrap_local_def resource_body_def
      GPUResource_ctor_def operator_new_def CK_THROW_def bind_p_def return_p_def Let_def
      for_loop.simps no_mpi_def env_ok_def dm2_def w0_def g2_def w2_def r0_def r1_def)

lemma throws_only_CK_ok: "(\<And>k. \<not> fails e k) \<Longrightarrow> throws_only P (CK_THROW e ty c)"
  unfolding throws_only_def by (rule triple_CK) simp_all

lemma throws_only_new_ok: "(\<And>k. \<not> fails e k) \<Longrightarrow> throws_only P (operator_new e c)"
  unfolding throws_only_def by (rule triple_new) simp_all

lemma throws_only_False_Inr:
  assumes "throws_only (\<lambda>_. False) m"
  shows "\<exists>a w'. m w = (Inr a, w')"
proof (cases "m w")
  case (Pair r w')
  show ?thesis
  proof (cases r)
    case (Inl x)
    with Pair throws_only_D [OF assms, of w x w'] show ?thesis by simp
  next
    case (Inr a)
    with Pair show ?thesis by simp
  qed
qed

lemma ctor_acquire_total:
  assumes "\<And>k. \<not> fails e k"
  shows "throws_only (\<lambda>_. False) (ctor_acquire b e dm self)"
  unfolding ctor_acquire_def Let_def bootstrap_local_def bootstrap_mpi_def join_body_def
    resource_body_def GPUResource_ctor_def
  by (intro throws_only_bind throws_only_return throws_only_for_loop)
     (simp_all add: assms throws_only_CK_ok throws_only_new_ok throws_only_return throws_only_bind
        throws_only_for_loop)

lemma ctor_total:
  assumes "get_device_list dm \<noteq> []" and "\<forall>d \<in> set (get_device_list dm). d < dev_count e"
    and "\<And>k. \<not> fails e k"
  shows "\<exists>g w'. GPUResourceGroup_ctor b e dm w = (Inr g, w')"
proof -
  have "find (\<lambda>d. dev_count e \<le> d) (get_device_list dm) = None"
    using assms(2) by (auto simp: find_None_iff)
  then show ?thesis
    using assms(1) throws_only_False_Inr [OF ctor_acquire_total [OF assms(3)]]
    by (simp add: ctor_validate)
qed

text \<open>
  C1. A device map with at least one local accelerator, every identifier below the number
  of accelerators the host shows, and no native call failing: the constructor returns a
  group whose \<^verbatim>\<open>size()\<close> is the number \<open>N\<close> of local accelerators, that holds \<open>N\<close> resources,
  where \<^verbatim>\<open>operator[]\<close> at each local index \<open>i < N\<close> gives a resource whose \<^verbatim>\<open>get_device_id()\<close>
  is the \<open>i\<close>-th entry of the device list, and whose \<^verbatim>\<open>get_total_gpu_count()\<close> and
  \<^verbatim>\<open>get_node_count()\<close> are the map's total accelerator count and process count.
\<close>

theorem group_holds_one_resource_per_local_accelerator:
  assumes "get_device_list dm \<noteq> []" and "\<forall>d \<in> set (get_device_list dm). d < dev_count e"
    and "\<forall>k. \<not> fails e k"
  shows "\<exists>g w'. GPUResourceGroup_ctor b e dm w = (Inr g, w')
          \<and> size_group g = length (get_device_list dm)
          \<and> length (gpu_resources_m g) = length (get_device_list dm)
          \<and> (\<forall>i<length (get_device_list dm).
                \<exists>r. operator_index g (int i) = Some r \<and> get_device_id r = get_device_list dm ! i)
          \<and> get_total_gpu_count g = DeviceMap_size dm
          \<and> get_node_count g = num_nodes dm"
proof -
  from ctor_total [OF assms(1,2)] assms(3)
  obtain g w' where run: "GPUResourceGroup_ctor b e dm w = (Inr g, w')" by blast
  note f = ctor_Inr [OF run]
  have "size_group g = length (get_device_list dm)" using f(3) by (simp add: size_group_def)
  moreover have "\<forall>i<length (get_device_list dm).
      \<exists>r. operator_index g (int i) = Some r \<and> get_device_id r = get_device_list dm ! i"
    using f(7,8) by (simp add: operator_index_def get_device_id_def)
  moreover have "get_total_gpu_count g = DeviceMap_size dm" "get_node_count g = num_nodes dm"
    using f(3) by (simp_all add: get_total_gpu_count_def get_node_count_def)
  ultimately show ?thesis using run f(7) by blast
qed

theorem group_holds_one_resource_per_local_accelerator_witness:
  "get_device_list dm2 \<noteq> [] \<and> list_all (\<lambda>d. d < dev_count env_ok) (get_device_list dm2)
   \<and> (\<forall>k. \<not> fails env_ok k)
   \<and> GPUResourceGroup_ctor no_mpi env_ok dm2 w0 = (Inr g2, w2)
   \<and> size_group g2 = 2
   \<and> map_option get_device_id (operator_index g2 0) = Some 0
   \<and> map_option get_device_id (operator_index g2 1) = Some 1
   \<and> get_total_gpu_count g2 = 2 \<and> get_node_count g2 = 1"
proof -
  have h1: "get_device_list dm2 \<noteq> []" by (simp add: dm2_def)
  have h2: "\<forall>d \<in> set (get_device_list dm2). d < dev_count env_ok"
    by (simp add: dm2_def env_ok_def)
  have h3: "\<forall>k. \<not> fails env_ok k" by (simp add: env_ok_def)
  from group_holds_one_resource_per_local_accelerator [OF h1 h2 h3, of no_mpi w0]
  have "size_group g2 = length (get_device_list dm2)
        \<and> (\<forall>i<length (get_device_list dm2).
              \<exists>r. operator_index g2 (int i) = Some r \<and> get_device_id r = get_device_list dm2 ! i)
        \<and> get_total_gpu_count g2 = DeviceMap_size dm2 \<and> get_node_count g2 = num_nodes dm2"
    by (auto simp: ctor_dm2)
  then have sz: "size_group g2 = length (get_device_list dm2)"
    and idx: "\<And>i. i < length (get_device_list dm2) \<Longrightarrow>
        \<exists>r. operator_index g2 (int i) = Some r \<and> get_device_id r = get_device_list dm2 ! i"
    and cnt: "get_total_gpu_count g2 = DeviceMap_size dm2" "get_node_count g2 = num_nodes dm2"
    by blast+
  have i0: "map_option get_device_id (operator_index g2 0) = Some 0"
    using idx [of 0] by (auto simp: dm2_def)
  have i1: "map_option get_device_id (operator_index g2 1) = Some 1"
    using idx [of 1] by (auto simp: dm2_def)
  have la: "list_all (\<lambda>d. d < dev_count env_ok) (get_device_list dm2)"
    using h2 by (simp add: list_all_iff)
  have "size_group g2 = 2" "get_total_gpu_count g2 = 2" "get_node_count g2 = 1"
    using sz cnt by (simp_all add: dm2_def)
  with h1 la h3 i0 i1 ctor_dm2 show ?thesis by blast
qed

lemma join_calls_no_new: "NewGPUResource \<notin> set (join_calls comms tgc nid dm dl j)"
  by (auto simp: join_calls_def)

lemma bootstrap_calls_no_new: "NewGPUResource \<notin> set (bootstrap_calls b e dm)"
  by (simp add: bootstrap_calls_def mpi_calls_def join_calls_no_new)

lemma join_calls_init:
  assumes "i < j"
  shows "NcclCommInitRank (ptr_add comms i) tgc nid (get_global_id dm (dl ! i))
           \<in> set (join_calls comms tgc nid dm dl j)"
  using assms by (auto simp: join_calls_def)

lemma bootstrap_calls_init:
  assumes "i < length (get_device_list dm)"
  shows "\<exists>c \<in> set (bootstrap_calls b e dm). initialises c (ptr_add (Addr (comms_base e)) i)"
proof (cases "ENABLE_MPI b")
  case True
  let ?c = "NcclCommInitRank (ptr_add (Addr (comms_base e)) i) (total_gpu_count b)
              (Some (if my_rank e = 0 then unique_id e else root_id e))
              (get_global_id dm (get_device_list dm ! i))"
  have "?c \<in> set (bootstrap_calls b e dm)"
    using True join_calls_init [OF assms, where comms = "Addr (comms_base e)"]
    by (simp add: bootstrap_calls_def mpi_calls_def)
  moreover have "initialises ?c (ptr_add (Addr (comms_base e)) i)" by simp
  ultimately show ?thesis by blast
next
  case False
  with assms show ?thesis by (simp add: bootstrap_calls_def)
qed

lemma populated_before_ctor:
  assumes "GPUResourceGroup_ctor b e dm w = (Inr g, w')"
  shows "populated_before (Addr (comms_base e)) (length (get_device_list dm)) (new_calls w w')"
proof -
  let ?dl = "get_device_list dm"
  let ?pre = "ThreadPoolCreate (length ?dl) # map SetAffinity [0 ..< length ?dl]
      @ CudaGetDeviceCount # NewCommArray (length ?dl) # bootstrap_calls b e dm"
  from ctor_Inr(9) [OF assms] obtain post where nc: "new_calls w w' = ?pre @ post" by auto
  have no_new: "c \<noteq> NewGPUResource" if "c \<in> set ?pre" for c
    using that bootstrap_calls_no_new [of b e dm] by auto
  have tw: "takeWhile (\<lambda>c. c \<noteq> NewGPUResource) (?pre @ post)
      = ?pre @ takeWhile (\<lambda>c. c \<noteq> NewGPUResource) post"
    by (rule takeWhile_append2) (rule no_new)
  have "list_ex (\<lambda>c. initialises c (ptr_add (Addr (comms_base e)) i))
          (takeWhile (\<lambda>c. c \<noteq> NewGPUResource) (new_calls w w'))" if "i < length ?dl" for i
  proof -
    from bootstrap_calls_init [OF that] obtain c where
      "c \<in> set (bootstrap_calls b e dm)" "initialises c (ptr_add (Addr (comms_base e)) i)"
      by blast
    then show ?thesis unfolding nc tw list_ex_iff by auto
  qed
  then show ?thesis by (simp add: populated_before_def list_all_iff)
qed

text \<open>
  C3. After a successful construction: every slot of the communicator array holds a
  communicator; each slot was initialised by a call made before the first
  \<^verbatim>\<open>new GPUResource\<close>; and the resource at each local index \<open>i\<close> has as \<^verbatim>\<open>get_nccl_ptr()\<close> the
  address \<^verbatim>\<open>comms_.get() + i\<close>, which is not null and differs from that of every other
  resource.
\<close>

theorem communicators_populated_before_resources:
  assumes "GPUResourceGroup_ctor b e dm w = (Inr g, w')"
  shows "comms_m g \<noteq> nullptr
         \<and> length (comms_array g) = size_group g
         \<and> (\<forall>i<size_group g. comms_array g ! i \<noteq> null_comm)
         \<and> populated_before (comms_m g) (size_group g) (new_calls w w')
         \<and> length (gpu_resources_m g) = size_group g
         \<and> (\<forall>i<size_group g. get_nccl_ptr (gpu_resources_m g ! i) = ptr_add (comms_m g) i
                \<and> get_nccl_ptr (gpu_resources_m g ! i) \<noteq> nullptr)
         \<and> distinct (map get_nccl_ptr (gpu_resources_m g))"
proof -
  note f = ctor_Inr [OF assms]
  have sz: "size_group g = length (get_device_list dm)" using f(3) by (simp add: size_group_def)
  have ptrs: "map get_nccl_ptr (gpu_resources_m g)
      = map (\<lambda>k. Addr (comms_base e + k)) [0 ..< length (get_device_list dm)]"
    using f(7,8) by (intro nth_equalityI) (simp_all add: get_nccl_ptr_def)
  have "distinct (map (\<lambda>k. Addr (comms_base e + k)) [0 ..< length (get_device_list dm)])"
    by (simp add: distinct_map inj_on_def)
  with ptrs have d: "distinct (map get_nccl_ptr (gpu_resources_m g))" by simp
  show ?thesis
    using f(4,5,6,7,8) sz d populated_before_ctor [OF assms]
    by (simp add: get_nccl_ptr_def)
qed

theorem communicators_populated_before_resources_witness:
  "GPUResourceGroup_ctor no_mpi env_ok dm2 w0 = (Inr g2, w2)
   \<and> comms_array g2 = [Comm 5 0, Comm 5 1]
   \<and> populated_before (Addr 4096) 2 (new_calls w0 w2)
   \<and> map get_nccl_ptr (gpu_resources_m g2) = [Addr 4096, Addr 4097]
   \<and> distinct (map get_nccl_ptr (gpu_resources_m g2))"
proof -
  have sz: "size_group g2 = 2" and c: "comms_m g2 = Addr 4096"
    by (simp_all add: size_group_def g2_def dm2_def)
  from communicators_populated_before_resources [OF ctor_dm2]
  have "populated_before (Addr 4096) 2 (new_calls w0 w2)"
    and "distinct (map get_nccl_ptr (gpu_resources_m g2))"
    unfolding sz c by blast+
  moreover have "comms_array g2 = [Comm 5 0, Comm 5 1]"
    and "map get_nccl_ptr (gpu_resources_m g2) = [Addr 4096, Addr 4097]"
    by (simp_all add: g2_def r0_def r1_def get_nccl_ptr_def)
  ultimately show ?thesis using ctor_dm2 by blast
qed

text \<open>
  C10. \<^verbatim>\<open>operator[]\<close> has no check of its index. On a constructed group it yields the
  resource at \<open>idx\<close> when \<open>0 \<le> idx < size()\<close>, and for every other index the vector access
  has no defined result: the lookup yields no value, and no error either.
\<close>

theorem operator_index_unchecked:
  assumes "GPUResourceGroup_ctor b e dm w = (Inr g, w')"
  shows "(0 \<le> idx \<and> idx < int (size_group g)
            \<longrightarrow> operator_index g idx = Some (gpu_resources_m g ! nat idx))
         \<and> (\<not> (0 \<le> idx \<and> idx < int (size_group g)) \<longrightarrow> operator_index g idx = None)"
proof -
  note f = ctor_Inr [OF assms]
  have "size_group g = length (gpu_resources_m g)" using f(3,7) by (simp add: size_group_def)
  then show ?thesis by (auto simp: operator_index_def)
qed

theorem operator_index_unchecked_witness:
  "GPUResourceGroup_ctor no_mpi env_ok dm2 w0 = (Inr g2, w2)
   \<and> size_group g2 = 2
   \<and> operator_index g2 1 = Some r1
   \<and> operator_index g2 2 = None
   \<and> operator_index g2 (- 1) = None"
proof -
  have sz: "size_group g2 = 2" by (simp add: size_group_def g2_def dm2_def)
  have r: "gpu_resources_m g2 ! nat 1 = r1" by (simp add: g2_def)
  from operator_index_unchecked [OF ctor_dm2, of 1] have "operator_index g2 1 = Some r1"
    unfolding sz r by simp
  moreover from operator_index_unchecked [OF ctor_dm2, of 2] have "operator_index g2 2 = None"
    unfolding sz by simp
  moreover from operator_index_unchecked [OF ctor_dm2, of "- 1"]
  have "operator_index g2 (- 1) = None"
    unfolding sz by simp
  ultimately show ?thesis using ctor_dm2 sz by blast
qed

section \<open>The destructors\<close>

lemma clean_refl: "clean e w w"
  by (auto simp: clean_def)

lemma CK_THROW_clean:
  "triple (clean e ws) (CK_THROW e ty c) (\<lambda>_. clean e ws) (failed_last e ws)"
  by (rule triple_CK) (auto simp: clean_def failed_last_def less_Suc_eq)

lemma try_catch_reported:
  assumes "triple (clean e w) body (\<lambda>_. clean e w) (failed_last e w)"
  shows "\<exists>w'. try_catch body w = (Inr (), w') \<and> reported e w w'"
proof (cases "body w")
  case (Pair res u1)
  show ?thesis
  proof (cases res)
    case (Inr u)
    with Pair have "clean e w u1" using tripleD_Inr [OF assms clean_refl] by simp
    then have "reported e w u1" by (auto simp: clean_def reported_def new_cerr_def)
    with Pair Inr show ?thesis by (simp add: try_catch_def)
  next
    case (Inl x)
    with Pair have fl: "failed_last e w x u1" using tripleD_Inl [OF assms clean_refl] by simp
    then obtain ty where x: "x = runtime_error ty (what e (length (trace u1) - 1))"
      by (auto simp: failed_last_def)
    let ?w' = "u1\<lparr>cerr := cerr u1 @ [what e (length (trace u1) - 1)]\<rparr>"
    have run: "try_catch body w = (Inr (), ?w')"
      using Pair Inl x by (simp add: try_catch_def)
    have "what e k \<in> set (new_cerr w ?w')"
      if "length (trace w) \<le> k" "k < length (trace ?w')" "fails e k" for k
    proof -
      have "k = length (trace u1) - 1"
        using that fl by (cases "k < length (trace u1) - 1") (auto simp: failed_last_def)
      then show ?thesis using fl by (simp add: new_cerr_def failed_last_def)
    qed
    then have "reported e w ?w'"
      using fl by (auto simp: reported_def failed_last_def)
    with run show ?thesis by blast
  qed
qed

lemma reported_refl: "reported e w w"
  by (auto simp: reported_def)

lemma reported_trans:
  assumes "reported e w u1" and "reported e u1 u2"
  shows "reported e w u2"
proof -
  from assms obtain l1 l2 where c1: "cerr u1 = cerr w @ l1" and c2: "cerr u2 = cerr u1 @ l2"
    by (auto simp: reported_def)
  have n1: "new_cerr w u1 = l1" and n2: "new_cerr u1 u2 = l2" and n: "new_cerr w u2 = l1 @ l2"
    using c1 c2 by (simp_all add: new_cerr_def)
  have "what e k \<in> set (new_cerr w u2)"
    if "length (trace w) \<le> k" "k < length (trace u2)" "fails e k" for k
  proof (cases "k < length (trace u1)")
    case True
    with that assms(1) have "what e k \<in> set l1" unfolding reported_def n1 by blast
    then show ?thesis by (simp add: n)
  next
    case False
    with that assms(2) have "what e k \<in> set l2" unfolding reported_def n2 by auto
    then show ?thesis by (simp add: n)
  qed
  then show ?thesis using assms c1 c2 by (auto simp: reported_def)
qed

lemma reported_failures: "reported e w w' \<Longrightarrow> failures_reported e w w'"
  by (auto simp: reported_def failures_reported_def list_all_iff)

lemma GPUResource_dtor_body_clean:
  "triple (clean e ws) (GPUResource_dtor_body e r) (\<lambda>_. clean e ws) (failed_last e ws)"
  unfolding GPUResource_dtor_body_def
  by (intro triple_bind [where R = "\<lambda>_. clean e ws"] CK_THROW_clean triple_return)

lemma GPUResource_dtor_reported:
  "\<exists>w'. GPUResource_dtor e r w = (Inr (), w') \<and> reported e w w'"
  unfolding GPUResource_dtor_def by (rule try_catch_reported) (rule GPUResource_dtor_body_clean)

lemma destroy_resources_reported:
  "\<exists>w'. destroy_resources e rs w = (Inr (), w') \<and> reported e w w'"
proof (induction rs arbitrary: w)
  case Nil
  show ?case by (simp add: return_p_def reported_refl)
next
  case (Cons r rs)
  from GPUResource_dtor_reported [of e r w] obtain u1 where
    d: "GPUResource_dtor e r w = (Inr (), u1)" and r1: "reported e w u1" by blast
  from Cons.IH [of u1] obtain u2 where
    ds: "destroy_resources e rs u1 = (Inr (), u2)" and r2: "reported e u1 u2" by blast
  have "destroy_resources e (r # rs) w = (Inr (), u2)" using d ds by (simp add: bind_p_def)
  with reported_trans [OF r1 r2] show ?case by blast
qed

lemma GPUResourceGroup_dtor_body_clean:
  "triple (clean e ws) (GPUResourceGroup_dtor_body e g) (\<lambda>_. clean e ws) (failed_last e ws)"
proof (cases "1 < length (gpu_resources_m g)")
  case True
  have "triple (clean e ws)
          (for_loop 0 (length (gpu_resources_m g))
             (\<lambda>i u. bind_p (CK_THROW e NcclError (NcclCommDestroy (comms_array g ! i)))
                      (\<lambda>_. return_p u)) ())
          (\<lambda>_. clean e ws) (failed_last e ws)"
    by (rule triple_for_loop [where I = "\<lambda>_ _. clean e ws"])
       (intro triple_bind [where R = "\<lambda>_. clean e ws"] CK_THROW_clean triple_return, simp_all)
  with True show ?thesis by (simp add: GPUResourceGroup_dtor_body_def)
next
  case False
  then show ?thesis by (simp add: GPUResourceGroup_dtor_body_def triple_return)
qed

lemma GPUResourceGroup_dtor_reported:
  "\<exists>w'. GPUResourceGroup_dtor e g w = (Inr (), w') \<and> reported e w w'"
proof -
  have "triple (clean e w) (GPUResourceGroup_dtor_body e g) (\<lambda>_. clean e w) (failed_last e w)"
    by (rule GPUResourceGroup_dtor_body_clean)
  from try_catch_reported [OF this] obtain u1 where
    b: "try_catch (GPUResourceGroup_dtor_body e g) w = (Inr (), u1)" and r1: "reported e w u1"
    by blast
  from destroy_resources_reported [of e "gpu_resources_m g" u1] obtain u2 where
    ds: "destroy_resources e (gpu_resources_m g) u1 = (Inr (), u2)" and r2: "reported e u1 u2"
    by blast
  have "GPUResourceGroup_dtor e g w = (Inr (), u2)"
    using b ds by (simp add: GPUResourceGroup_dtor_def bind_p_def)
  with reported_trans [OF r1 r2] show ?thesis by blast
qed

lemma try_catch_trace: "trace (snd (try_catch body w)) = trace (snd (body w))"
  by (simp add: try_catch_def split: prod.splits sum.splits exn.splits)

lemma no_comm_destroy_refl: "no_comm_destroy w w"
  by (simp add: no_comm_destroy_def)

lemma no_comm_destroy_trans:
  "no_comm_destroy w u1 \<Longrightarrow> no_comm_destroy u1 u2 \<Longrightarrow> no_comm_destroy w u2"
  by (auto simp: no_comm_destroy_def)

lemma CK_THROW_no_comm_destroy:
  assumes "\<not> is_comm_destroy c"
  shows "triple (no_comm_destroy ws) (CK_THROW e ty c) (\<lambda>_. no_comm_destroy ws)
           (\<lambda>_. no_comm_destroy ws)"
  using assms by (intro triple_CK) (auto simp: no_comm_destroy_def)

lemma GPUResource_dtor_no_comm_destroy:
  "no_comm_destroy w (snd (GPUResource_dtor e r w))"
proof -
  have t: "triple (no_comm_destroy w) (GPUResource_dtor_body e r) (\<lambda>_. no_comm_destroy w)
      (\<lambda>_. no_comm_destroy w)"
    unfolding GPUResource_dtor_body_def
    by (intro triple_bind [where R = "\<lambda>_. no_comm_destroy w"] CK_THROW_no_comm_destroy
          triple_return) simp_all
  have "no_comm_destroy w (snd (GPUResource_dtor_body e r w))"
  proof (cases "GPUResource_dtor_body e r w")
    case (Pair res u1)
    then show ?thesis
      using tripleD_Inr [OF t no_comm_destroy_refl, of _ u1]
        tripleD_Inl [OF t no_comm_destroy_refl, of _ u1]
      by (cases res) simp_all
  qed
  then show ?thesis
    by (simp add: no_comm_destroy_def GPUResource_dtor_def try_catch_trace)
qed

lemma destroy_resources_no_comm_destroy:
  "no_comm_destroy w (snd (destroy_resources e rs w))"
proof (induction rs arbitrary: w)
  case Nil
  show ?case by (simp add: return_p_def no_comm_destroy_refl)
next
  case (Cons r rs)
  from GPUResource_dtor_reported [of e r w] obtain u1 where
    d: "GPUResource_dtor e r w = (Inr (), u1)" by blast
  have "no_comm_destroy w u1" using GPUResource_dtor_no_comm_destroy [of w e r] d by simp
  moreover have "no_comm_destroy u1 (snd (destroy_resources e rs u1))" by (rule Cons.IH)
  ultimately show ?case using d by (simp add: bind_p_def no_comm_destroy_trans)
qed

lemma destroy_calls_Suc: "destroy_calls arr (Suc j) = destroy_calls arr j @ [NcclCommDestroy (arr ! j)]"
  by (simp add: destroy_calls_def)

lemma filter_destroy_calls [simp]: "filter is_comm_destroy (destroy_calls arr j) = destroy_calls arr j"
  by (simp add: destroy_calls_def filter_map comp_def)

lemma destroy_step:
  assumes "j < n"
  shows "triple (destroy_inv e arr t0 j u)
           (bind_p (CK_THROW e NcclError (NcclCommDestroy (arr ! j))) (\<lambda>_. return_p u))
           (destroy_inv e arr t0 (Suc j)) (destroy_stopped e arr t0 n)"
proof (rule triple_bind [where R = "\<lambda>_. destroy_inv e arr t0 (Suc j) u"])
  show "triple (destroy_inv e arr t0 j u) (CK_THROW e NcclError (NcclCommDestroy (arr ! j)))
          (\<lambda>_. destroy_inv e arr t0 (Suc j) u) (destroy_stopped e arr t0 n)"
  proof (rule triple_CK)
    fix w assume "destroy_inv e arr t0 j u w" "\<not> fails e (length (trace w))"
    then show "destroy_inv e arr t0 (Suc j) u (w\<lparr>trace := trace w @ [NcclCommDestroy (arr ! j)]\<rparr>)"
      by (auto simp: destroy_inv_def destroy_calls_Suc destroy_calls_def less_Suc_eq)
  next
    fix w assume "destroy_inv e arr t0 j u w" "fails e (length (trace w))"
    then have "trace (w\<lparr>trace := trace w @ [NcclCommDestroy (arr ! j)]\<rparr>)
          = t0 @ destroy_calls arr (Suc j)"
      and "\<forall>i<j. \<not> fails e (length t0 + i)" and "fails e (length t0 + j)"
      by (auto simp: destroy_inv_def destroy_calls_Suc destroy_calls_def)
    with assms show "destroy_stopped e arr t0 n (runtime_error NcclError (what e (length (trace w))))
        (w\<lparr>trace := trace w @ [NcclCommDestroy (arr ! j)]\<rparr>)"
      unfolding destroy_stopped_def by blast
  qed
next
  fix a show "triple (destroy_inv e arr t0 (Suc j) u) (return_p u) (destroy_inv e arr t0 (Suc j))
      (destroy_stopped e arr t0 n)"
    by (rule triple_return) (simp add: destroy_inv_def)
qed

lemma GPUResourceGroup_dtor_body_calls:
  assumes "1 < length (gpu_resources_m g)"
  shows "\<exists>m. 1 \<le> m \<and> m \<le> length (gpu_resources_m g)
           \<and> trace (snd (GPUResourceGroup_dtor_body e g w)) = trace w @ destroy_calls (comms_array g) m
           \<and> (\<forall>i<m - 1. \<not> fails e (length (trace w) + i))
           \<and> (m < length (gpu_resources_m g) \<longrightarrow> fails e (length (trace w) + (m - 1)))"
proof -
  let ?n = "length (gpu_resources_m g)" and ?arr = "comms_array g"
  let ?loop = "for_loop 0 ?n
      (\<lambda>i u. bind_p (CK_THROW e NcclError (NcclCommDestroy (?arr ! i))) (\<lambda>_. return_p u)) ()"
  have t: "triple (destroy_inv e ?arr (trace w) 0 ()) ?loop (destroy_inv e ?arr (trace w) ?n)
      (destroy_stopped e ?arr (trace w) ?n)"
    by (rule triple_for_loop) (simp_all add: destroy_step)
  have i0: "destroy_inv e ?arr (trace w) 0 () w" by (simp add: destroy_inv_def destroy_calls_def)
  have body: "GPUResourceGroup_dtor_body e g w = ?loop w"
    using assms by (simp add: GPUResourceGroup_dtor_body_def)
  show ?thesis
  proof (cases "?loop w")
    case (Pair res u1)
    show ?thesis
    proof (cases res)
      case (Inr u)
      with Pair have "destroy_inv e ?arr (trace w) ?n u u1" using tripleD_Inr [OF t i0] by simp
      then show ?thesis
        using assms body Pair by (intro exI [of _ ?n]) (auto simp: destroy_inv_def)
    next
      case (Inl x)
      with Pair have "destroy_stopped e ?arr (trace w) ?n x u1" using tripleD_Inl [OF t i0] by simp
      then obtain m where "m < ?n" "trace u1 = trace w @ destroy_calls ?arr (Suc m)"
        "\<forall>i<m. \<not> fails e (length (trace w) + i)" "fails e (length (trace w) + m)"
        unfolding destroy_stopped_def by blast
      then show ?thesis
        using body Pair by (intro exI [of _ "Suc m"]) auto
    qed
  qed
qed

lemma GPUResourceGroup_dtor_calls:
  "\<exists>tr. trace (snd (GPUResourceGroup_dtor e g w))
          = trace (snd (GPUResourceGroup_dtor_body e g w)) @ tr
        \<and> filter is_comm_destroy tr = []"
proof -
  have "triple (clean e w) (GPUResourceGroup_dtor_body e g) (\<lambda>_. clean e w) (failed_last e w)"
    by (rule GPUResourceGroup_dtor_body_clean)
  from try_catch_reported [OF this] obtain u1 where
    b: "try_catch (GPUResourceGroup_dtor_body e g) w = (Inr (), u1)" by blast
  have t1: "trace u1 = trace (snd (GPUResourceGroup_dtor_body e g w))"
    using try_catch_trace [of "GPUResourceGroup_dtor_body e g" w] b by simp
  have run: "GPUResourceGroup_dtor e g w = destroy_resources e (gpu_resources_m g) u1"
    using b by (simp add: GPUResourceGroup_dtor_def bind_p_def)
  from destroy_resources_no_comm_destroy [of u1 e "gpu_resources_m g"]
  show ?thesis unfolding run no_comm_destroy_def t1 .
qed

text \<open>
  C8. Neither destructor lets an error out. The destructor of a resource, and the
  destructor of a group (its body, then the destructors of the resources it holds),
  complete normally in every world and on every host; and every native call they made
  that failed has its error text on \<^verbatim>\<open>std::cerr\<close>.
\<close>

theorem destructors_never_throw:
  "fst (GPUResource_dtor e r w) = Inr ()
   \<and> failures_reported e w (snd (GPUResource_dtor e r w))
   \<and> fst (GPUResourceGroup_dtor e g w) = Inr ()
   \<and> failures_reported e w (snd (GPUResourceGroup_dtor e g w))"
proof -
  from GPUResource_dtor_reported [of e r w] obtain u1 where
    "GPUResource_dtor e r w = (Inr (), u1)" "reported e w u1" by blast
  moreover from GPUResourceGroup_dtor_reported [of e g w] obtain u2 where
    "GPUResourceGroup_dtor e g w = (Inr (), u2)" "reported e w u2" by blast
  ultimately show ?thesis by (simp add: reported_failures)
qed

theorem destructors_never_throw_witness:
  "fails env_d 22
   \<and> GPUResource_dtor env_d r0 w2 =
       (Inr (), w2\<lparr>trace := trace w2 @ [CudaDeviceContext 0], cerr := [''native call failed'']\<rparr>)
   \<and> fst (GPUResourceGroup_dtor env_d g2 w2) = Inr ()
   \<and> new_cerr w2 (snd (GPUResourceGroup_dtor env_d g2 w2)) = [''native call failed'']"
proof -
  note t = destructors_never_throw [of env_d r0 w2 g2]
  have f: "fails env_d 22" by (simp add: env_d_def)
  have r: "GPUResource_dtor env_d r0 w2 =
       (Inr (), w2\<lparr>trace := trace w2 @ [CudaDeviceContext 0], cerr := [''native call failed'']\<rparr>)"
    by (simp add: GPUResource_dtor_def GPUResource_dtor_body_def try_catch_def bind_p_def
        CK_THROW_def Let_def env_d_def env_ok_def w2_def r0_def)
  have c: "new_cerr w2 (snd (GPUResourceGroup_dtor env_d g2 w2)) = [''native call failed'']"
    by (simp add: GPUResourceGroup_dtor_def GPUResourceGroup_dtor_body_def GPUResource_dtor_def
        GPUResource_dtor_body_def try_catch_def bind_p_def return_p_def CK_THROW_def Let_def
        for_loop.simps new_cerr_def env_d_def env_ok_def w2_def g2_def r0_def r1_def)
  from t f r c show ?thesis by blast
qed

text \<open>
  C4, as the code has it. A constructed group that holds one resource: its destructor
  makes no \<^verbatim>\<open>ncclCommDestroy\<close> call. A constructed group that holds more than one: its
  destructor passes the slots to \<^verbatim>\<open>ncclCommDestroy\<close> in index order, each once, up to and
  including the first call that fails; the slots after a failed call are not torn down;
  when no call fails, every slot is torn down exactly once.
\<close>

theorem comm_teardown_until_first_failure:
  assumes "GPUResourceGroup_ctor b e dm u = (Inr g, u')"
  shows "(length (gpu_resources_m g) = 1 \<longrightarrow>
            filter is_comm_destroy (new_calls w (snd (GPUResourceGroup_dtor e g w))) = [])
         \<and> (1 < length (gpu_resources_m g) \<longrightarrow>
            (\<exists>m. 1 \<le> m \<and> m \<le> length (comms_array g)
               \<and> filter is_comm_destroy (new_calls w (snd (GPUResourceGroup_dtor e g w)))
                   = map NcclCommDestroy (take m (comms_array g))
               \<and> (\<forall>i<m - 1. \<not> fails e (length (trace w) + i))
               \<and> (m < length (comms_array g) \<longrightarrow> fails e (length (trace w) + (m - 1)))))"
proof -
  note f = ctor_Inr [OF assms]
  have len: "length (comms_array g) = length (gpu_resources_m g)" using f(5,7) by simp
  from GPUResourceGroup_dtor_calls [of e g w] obtain tr where
    tr: "trace (snd (GPUResourceGroup_dtor e g w))
           = trace (snd (GPUResourceGroup_dtor_body e g w)) @ tr"
    and ftr: "filter is_comm_destroy tr = []" by blast
  show ?thesis
  proof (intro conjI impI)
    assume "length (gpu_resources_m g) = 1"
    then have "GPUResourceGroup_dtor_body e g w = (Inr (), w)"
      by (simp add: GPUResourceGroup_dtor_body_def return_p_def)
    with tr ftr show "filter is_comm_destroy (new_calls w (snd (GPUResourceGroup_dtor e g w))) = []"
      by (simp add: new_calls_def)
  next
    assume many: "1 < length (gpu_resources_m g)"
    from GPUResourceGroup_dtor_body_calls [OF many, of e w] obtain m where
      m: "1 \<le> m" "m \<le> length (gpu_resources_m g)"
        "trace (snd (GPUResourceGroup_dtor_body e g w)) = trace w @ destroy_calls (comms_array g) m"
        "\<forall>i<m - 1. \<not> fails e (length (trace w) + i)"
        "m < length (gpu_resources_m g) \<longrightarrow> fails e (length (trace w) + (m - 1))"
      by blast
    have dc: "destroy_calls (comms_array g) m = map NcclCommDestroy (take m (comms_array g))"
      using m(2) len by (intro nth_equalityI) (simp_all add: destroy_calls_def)
    have "filter is_comm_destroy (new_calls w (snd (GPUResourceGroup_dtor e g w)))
        = map NcclCommDestroy (take m (comms_array g))"
      using tr ftr m(3) filter_destroy_calls [of "comms_array g" m]
      by (simp add: new_calls_def dc)
    with m len show "\<exists>m. 1 \<le> m \<and> m \<le> length (comms_array g)
               \<and> filter is_comm_destroy (new_calls w (snd (GPUResourceGroup_dtor e g w)))
                   = map NcclCommDestroy (take m (comms_array g))
               \<and> (\<forall>i<m - 1. \<not> fails e (length (trace w) + i))
               \<and> (m < length (comms_array g) \<longrightarrow> fails e (length (trace w) + (m - 1)))"
      by (intro exI [of _ m]) simp
  qed
qed

theorem comm_teardown_until_first_failure_witness:
  "GPUResourceGroup_ctor no_mpi env_ok dm2 w0 = (Inr g2, w2)
   \<and> length (gpu_resources_m g2) = 2
   \<and> filter is_comm_destroy (new_calls w2 (snd (GPUResourceGroup_dtor env_ok g2 w2)))
       = map NcclCommDestroy (comms_array g2)"
proof -
  have n: "length (gpu_resources_m g2) = 2" and a: "comms_array g2 = [Comm 5 0, Comm 5 1]"
    by (simp_all add: g2_def)
  have nf: "\<not> fails env_ok k" for k by (simp add: env_ok_def)
  from comm_teardown_until_first_failure [OF ctor_dm2, of w2] n
  obtain m where m: "m \<le> length (comms_array g2)"
    "filter is_comm_destroy (new_calls w2 (snd (GPUResourceGroup_dtor env_ok g2 w2)))
       = map NcclCommDestroy (take m (comms_array g2))"
    "m < length (comms_array g2) \<longrightarrow> fails env_ok (length (trace w2) + (m - 1))"
    by auto
  from m(1,3) nf have "m = length (comms_array g2)" by auto
  with m(2) ctor_dm2 n show ?thesis by simp
qed

text \<open>
  C4 as stated fails: on the host where the first \<^verbatim>\<open>ncclCommDestroy\<close> fails, the destructor
  of the group of the scenario, which holds two resources, makes one teardown call, not
  two.
\<close>

theorem comm_teardown_once_per_slot_counterexample:
  "GPUResourceGroup_ctor no_mpi env_d dm2 w0 = (Inr g2, w2)
   \<and> length (gpu_resources_m g2) = 2
   \<and> filter is_comm_destroy (new_calls w2 (snd (GPUResourceGroup_dtor env_d g2 w2)))
       = [NcclCommDestroy (Comm 5 0)]"
proof -
  have c: "GPUResourceGroup_ctor no_mpi env_d dm2 w0 = (Inr g2, w2)"
    by (simp add: ctor_validate ctor_acquire_def bootstrap_local_def resource_body_def
        GPUResource_ctor_def operator_new_def CK_THROW_def bind_p_def return_p_def Let_def
        for_loop.simps no_mpi_def env_d_def env_ok_def dm2_def w0_def g2_def w2_def r0_def r1_def)
  have d: "filter is_comm_destroy (new_calls w2 (snd (GPUResourceGroup_dtor env_d g2 w2)))
       = [NcclCommDestroy (Comm 5 0)]"
    by (simp add: GPUResourceGroup_dtor_def GPUResourceGroup_dtor_body_def GPUResource_dtor_def
        GPUResource_dtor_body_def try_catch_def bind_p_def return_p_def CK_THROW_def Let_def
        for_loop.simps new_calls_def env_d_def env_ok_def w2_def g2_def r0_def r1_def)
  from c d show ?thesis by (simp add: g2_def)
qed

section \<open>The bootstrap under \<^verbatim>\<open>ENABLE_MPI\<close>\<close>

text \<open>
  C2. The bootstrap under \<^verbatim>\<open>ENABLE_MPI\<close> in the scenario of the spec, in the process of rank
  0 and in a process of rank 1, with the identifier \<^verbatim>\<open>total_gpu_count\<close> bound to any \<open>t\<close>.
  The order is the one claimed: rank 0 alone makes the token, the broadcast follows, then
  one \<^verbatim>\<open>ncclGroupStart\<close>, the joins in local index order with rank
  \<^verbatim>\<open>get_global_id(device_list[i])\<close>, and one \<^verbatim>\<open>ncclGroupEnd\<close>. The count passed to
  \<^verbatim>\<open>ncclCommInitRank\<close> is \<open>t\<close>, whatever the identifier is bound to: nothing in the
  source makes it the total accelerator count of the map, which is 2 here.
\<close>

theorem mpi_join_count_unbound:
  "take 10 (drop 5 (new_calls w0
      (snd (GPUResourceGroup_ctor (with_mpi\<lparr>total_gpu_count := t\<rparr>) env_ok dm2 w0))))
     = [MPI_Comm_rank, MPI_Comm_size, NcclGetUniqueId, MPI_Bcast 0, NcclGroupStart,
        CudaSetDevice 0, NcclCommInitRank (Addr 4096) t (Some 7) 0,
        CudaSetDevice 1, NcclCommInitRank (Addr 4097) t (Some 7) 1, NcclGroupEnd]
   \<and> take 9 (drop 5 (new_calls w0
      (snd (GPUResourceGroup_ctor (with_mpi\<lparr>total_gpu_count := t\<rparr>) env_rank1 dm2 w0))))
     = [MPI_Comm_rank, MPI_Comm_size, MPI_Bcast 0, NcclGroupStart,
        CudaSetDevice 0, NcclCommInitRank (Addr 4096) t (Some 7) 0,
        CudaSetDevice 1, NcclCommInitRank (Addr 4097) t (Some 7) 1, NcclGroupEnd]
   \<and> DeviceMap_size dm2 = 2"
  by (simp add: ctor_validate ctor_acquire_def bootstrap_mpi_def join_body_def resource_body_def
      GPUResource_ctor_def operator_new_def CK_THROW_def bind_p_def return_p_def Let_def
      for_loop.simps new_calls_def with_mpi_def env_rank1_def env_ok_def dm2_def w0_def)

end
